theory Spec2Isabelle
  imports Complex_Main
begin

section \<open>JavaScript values held by the settings storage\<close>

text \<open>
  The storage adapter holds JSON values. A number is a rational (every finite double is
  one; the steps only compare indices and subtract a count from them), a string is a
  list of 8-bit code units, an object is the list of its own properties in the order
  in which JavaScript enumerates them. \<open>None\<close> of type \<open>jval option\<close> is
  \<^verbatim>\<open>undefined\<close>.
\<close>

datatype jval =
    JNull
  | JBool bool
  | JNum rat
  | JStr string
  | JArr "jval list"
  | JObj "(string \<times> jval) list"

datatype js_type = TUndefined | TObject | TBoolean | TNumber | TString

fun typeof :: "jval option \<Rightarrow> js_type" where
  "typeof None = TUndefined"
| "typeof (Some JNull) = TObject"
| "typeof (Some (JBool b)) = TBoolean"
| "typeof (Some (JNum r)) = TNumber"
| "typeof (Some (JStr s)) = TString"
| "typeof (Some (JArr xs)) = TObject"
| "typeof (Some (JObj ps)) = TObject"

text \<open>\<^verbatim>\<open>!v\<close> is \<open>\<not> truthy v\<close>.\<close>

fun truthy :: "jval option \<Rightarrow> bool" where
  "truthy None = False"
| "truthy (Some JNull) = False"
| "truthy (Some (JBool b)) = b"
| "truthy (Some (JNum r)) = (r \<noteq> 0)"
| "truthy (Some (JStr s)) = (s \<noteq> [])"
| "truthy (Some (JArr xs)) = True"
| "truthy (Some (JObj ps)) = True"

subsection \<open>Strings\<close>

text \<open>White space and line terminators of JavaScript that fit in 8 bits:
  TAB, LF, VT, FF, CR, SPACE and NBSP.\<close>

definition is_space :: "char \<Rightarrow> bool" where
  "is_space c = (c \<in> set [CHR 0x09, CHR 0x0A, CHR 0x0B, CHR 0x0C, CHR 0x0D, CHR 0x20, CHR 0xA0])"

definition trim :: "string \<Rightarrow> string" where
  "trim s = rev (dropWhile is_space (rev (dropWhile is_space s)))"

definition is_digit :: "char \<Rightarrow> bool" where
  "is_digit c = (c \<in> set ''0123456789'')"

definition digit_val :: "char \<Rightarrow> int" where
  "digit_val c = of_char c - 48"

definition digits_value :: "string \<Rightarrow> int" where
  "digits_value ds = foldl (\<lambda>a c. 10 * a + digit_val c) 0 ds"

text \<open>The regular expression \<^verbatim>\<open>/^\d+$/\<close>.\<close>

definition digits_only :: "string \<Rightarrow> bool" where
  "digits_only s = (s \<noteq> [] \<and> list_all is_digit s)"

text \<open>
  \<^verbatim>\<open>parseInt(s, 10)\<close>: leading white space is skipped, one sign is read, then the
  longest run of decimal digits; \<open>None\<close> is \<^verbatim>\<open>NaN\<close> (no digit there). What follows
  the digits is ignored. The value is kept exact (a double rounds it only from
  \<open>2^53\<close> on, far beyond the length of any array).
\<close>

definition parseInt :: "string \<Rightarrow> int option" where
  "parseInt s =
     (let s1 = dropWhile is_space s;
          negative = (s1 \<noteq> [] \<and> hd s1 = CHR ''-'');
          s2 = (if s1 \<noteq> [] \<and> (hd s1 = CHR ''-'' \<or> hd s1 = CHR ''+'') then tl s1 else s1);
          ds = takeWhile is_digit s2
      in if ds = [] then None
         else Some (if negative then - digits_value ds else digits_value ds))"

fun decimal :: "nat \<Rightarrow> string" where
  "decimal n =
     (if n < 10 then [''0123456789'' ! n]
      else decimal (n div 10) @ [''0123456789'' ! (n mod 10)])"

declare decimal.simps [simp del]

text \<open>\<^verbatim>\<open>s.startsWith(p)\<close> and \<^verbatim>\<open>s.includes(p)\<close>.\<close>

definition startsWith :: "string \<Rightarrow> string \<Rightarrow> bool" where
  "startsWith s p = (take (length p) s = p)"

fun str_includes :: "string \<Rightarrow> string \<Rightarrow> bool" where
  "str_includes [] p = (p = [])"
| "str_includes (c # s) p = (startsWith (c # s) p \<or> str_includes s p)"

subsection \<open>Objects and arrays\<close>

text \<open>
  An array index is a canonical decimal numeral below \<open>2^32 - 1\<close>. The own properties
  of an object are enumerated with the array indices first, ascending, then the other
  keys in the order of their creation; \<open>obj_set\<close> defines the own property \<open>k\<close> on
  that representation, as an object literal and the spread of an object do for each
  of their properties.
\<close>

definition array_index :: "string \<Rightarrow> int option" where
  "array_index k =
     (if digits_only k \<and> (k = ''0'' \<or> hd k \<noteq> CHR ''0'') \<and> digits_value k < 4294967295
      then Some (digits_value k) else None)"

definition precedes :: "string \<Rightarrow> string \<Rightarrow> bool" where
  "precedes k k' =
     (case array_index k of
        None \<Rightarrow> False
      | Some n \<Rightarrow> (case array_index k' of None \<Rightarrow> True | Some n' \<Rightarrow> n < n'))"

fun replace_prop :: "string \<Rightarrow> jval \<Rightarrow> (string \<times> jval) list \<Rightarrow> (string \<times> jval) list" where
  "replace_prop k v [] = []"
| "replace_prop k v ((k', v') # ps) =
     (if k' = k then (k, v) # ps else (k', v') # replace_prop k v ps)"

fun insert_prop :: "string \<Rightarrow> jval \<Rightarrow> (string \<times> jval) list \<Rightarrow> (string \<times> jval) list" where
  "insert_prop k v [] = [(k, v)]"
| "insert_prop k v ((k', v') # ps) =
     (if precedes k k' then (k, v) # (k', v') # ps else (k', v') # insert_prop k v ps)"

definition obj_get :: "(string \<times> jval) list \<Rightarrow> string \<Rightarrow> jval option" where
  "obj_get ps k = map_of ps k"

definition obj_set :: "(string \<times> jval) list \<Rightarrow> string \<Rightarrow> jval \<Rightarrow> (string \<times> jval) list" where
  "obj_set ps k v =
     (if k \<in> set (map fst ps) then replace_prop k v ps else insert_prop k v ps)"

text \<open>
  The assignment \<^verbatim>\<open>o[k] = v\<close> on an object created by the literal \<^verbatim>\<open>{}\<close>. Such an
  object has its own properties and a prototype, at first \<^verbatim>\<open>Object.prototype\<close> (here
  \<open>None\<close>), whose property \<^verbatim>\<open>__proto__\<close> is an accessor. The assignment replaces the
  value of an own property of that name. Failing that, an assignment to the name
  \<^verbatim>\<open>__proto__\<close> that finds the accessor on the prototype chain calls its setter: an
  object or \<^verbatim>\<open>null\<close> becomes the prototype, any other value is ignored, and no property
  is created. Every other assignment creates an own property. The chain leads to the
  accessor unless the prototype is \<^verbatim>\<open>null\<close>, or is an object with an own property
  named \<^verbatim>\<open>__proto__\<close>, which a JSON object can have.
\<close>

record plain_object =
  own :: "(string \<times> jval) list"
  prototype :: "jval option"

definition empty_object :: plain_object where
  "empty_object = \<lparr>own = [], prototype = None\<rparr>"

fun reaches_proto_setter :: "jval option \<Rightarrow> bool" where
  "reaches_proto_setter None = True"
| "reaches_proto_setter (Some (JObj ps)) = (''__proto__'' \<notin> set (map fst ps))"
| "reaches_proto_setter (Some (JArr xs)) = True"
| "reaches_proto_setter (Some v) = False"

definition assign :: "plain_object \<Rightarrow> string \<Rightarrow> jval \<Rightarrow> plain_object" where
  "assign obj k v =
     (if k \<in> set (map fst (own obj)) then obj\<lparr>own := replace_prop k v (own obj)\<rparr>
      else if k = ''__proto__'' \<and> reaches_proto_setter (prototype obj)
      then (if typeof (Some v) = TObject then obj\<lparr>prototype := Some v\<rparr> else obj)
      else obj\<lparr>own := insert_prop k v (own obj)\<rparr>)"

text \<open>
  The names that every object inherits from \<^verbatim>\<open>Object.prototype\<close>. A read of one of them
  on an object without an own property of that name gives a function or, for
  \<^verbatim>\<open>__proto__\<close>, the prototype: a truthy value.
\<close>

definition object_prototype_names :: "string list" where
  "object_prototype_names =
     [''constructor'', ''__defineGetter__'', ''__defineSetter__'', ''hasOwnProperty'',
      ''__lookupGetter__'', ''__lookupSetter__'', ''isPrototypeOf'', ''propertyIsEnumerable'',
      ''toString'', ''valueOf'', ''__proto__'', ''toLocaleString'']"

text \<open>
  \<^verbatim>\<open>v.k\<close> for a value \<open>v\<close> that is not \<^verbatim>\<open>null\<close> or \<^verbatim>\<open>undefined\<close>, and a name \<open>k\<close>
  that is neither \<^verbatim>\<open>length\<close>, nor an index, nor inherited from a prototype (the code
  reads \<^verbatim>\<open>id\<close>, \<^verbatim>\<open>index\<close>, \<^verbatim>\<open>mediaId\<close>, \<^verbatim>\<open>positionX\<close>, \<^verbatim>\<open>positionY\<close> and \<^verbatim>\<open>zoom\<close>):
  only an object has it.
\<close>

fun get_prop :: "jval \<Rightarrow> string \<Rightarrow> jval option" where
  "get_prop (JObj ps) k = obj_get ps k"
| "get_prop v k = None"

text \<open>\<^verbatim>\<open>xs[i]\<close>: an element when the number is an integer in range,
  \<^verbatim>\<open>undefined\<close> otherwise.\<close>

definition nth_opt :: "'a list \<Rightarrow> int \<Rightarrow> 'a option" where
  "nth_opt xs i = (if 0 \<le> i \<and> i < int (length xs) then Some (xs ! nat i) else None)"

definition is_integer :: "rat \<Rightarrow> bool" where
  "is_integer r = (r = of_int \<lfloor>r\<rfloor>)"

definition js_nth :: "'a list \<Rightarrow> rat \<Rightarrow> 'a option" where
  "js_nth xs r = (if is_integer r then nth_opt xs \<lfloor>r\<rfloor> else None)"

text \<open>\<^verbatim>\<open>Object.entries(v)\<close> for a value of type object: an array has its indices as keys.\<close>

fun own_entries :: "jval \<Rightarrow> (string \<times> jval) list" where
  "own_entries (JObj ps) = ps"
| "own_entries (JArr xs) = zip (map decimal [0..<length xs]) xs"
| "own_entries v = []"

text \<open>
  The conversion of a value to a property key. An array gives the texts of its elements
  joined by commas, an object \<^verbatim>\<open>[object Object]\<close>; \<open>None\<close> is the \<^verbatim>\<open>TypeError\<close> of an
  object that has no primitive value, which is a JSON object with an own property
  \<^verbatim>\<open>toString\<close>: it is not callable, it hides the method of \<^verbatim>\<open>Object.prototype\<close>, and
  \<^verbatim>\<open>valueOf\<close> returns the object. The text of a number is the double formatting of the
  language and is left to the parameter \<open>numberToString\<close>; it is reached only when the
  \<^verbatim>\<open>id\<close> of a custom entry is a number (or an array holding one).
\<close>

fun intercalate :: "string \<Rightarrow> string list \<Rightarrow> string" where
  "intercalate sep [] = []"
| "intercalate sep [s] = s"
| "intercalate sep (s # t # ss) = s @ sep @ intercalate sep (t # ss)"

fun to_string :: "(rat \<Rightarrow> string) \<Rightarrow> jval \<Rightarrow> string option" where
  "to_string numberToString JNull = Some ''null''"
| "to_string numberToString (JBool b) = Some (if b then ''true'' else ''false'')"
| "to_string numberToString (JNum r) = Some (numberToString r)"
| "to_string numberToString (JStr s) = Some s"
| "to_string numberToString (JArr xs) =
     map_option (intercalate '','')
       (those (map (\<lambda>x. if x = JNull then Some [] else to_string numberToString x) xs))"
| "to_string numberToString (JObj ps) =
     (if ''toString'' \<in> set (map fst ps) then None else Some ''[object Object]'')"

definition to_property_key :: "(rat \<Rightarrow> string) \<Rightarrow> jval option \<Rightarrow> string option" where
  "to_property_key numberToString v =
     (case v of None \<Rightarrow> Some ''undefined'' | Some x \<Rightarrow> to_string numberToString x)"

section \<open>The storage adapter and what a step can throw\<close>

text \<open>
  Modelled from the spec: the \<^verbatim>\<open>StorageAdapter\<close> of \<^verbatim>\<open>schema-utils\<close>, which the
  migration only consumes. It is a key-value store over key paths: \<^verbatim>\<open>get(path)\<close>
  returns the value last set under the path or \<^verbatim>\<open>undefined\<close>, \<^verbatim>\<open>set(path, value)\<close>
  stores it. The values are JSON values, so what is stored of an object is its own
  properties. \<open>writes\<close> records the calls of \<^verbatim>\<open>set\<close>, oldest first.
\<close>

record storage =
  contents :: "string \<rightharpoonup> jval"
  writes :: "(string \<times> jval) list"

definition storage_get :: "storage \<Rightarrow> string \<Rightarrow> jval option" where
  "storage_get s k = contents s k"

definition storage_set :: "storage \<Rightarrow> string \<Rightarrow> jval \<Rightarrow> storage" where
  "storage_set s k v = s\<lparr>contents := (contents s)(k \<mapsto> v), writes := writes s @ [(k, v)]\<rparr>"

datatype js_error = TypeError | Error string | Rejected string

text \<open>A call returns, or throws and leaves the state it had reached.\<close>

datatype 'a outcome = Returned 'a | Threw js_error 'a

fun state_of :: "'a outcome \<Rightarrow> 'a" where
  "state_of (Returned s) = s"
| "state_of (Threw e s) = s"

section \<open>The builtin media manifest\<close>

text \<open>
  \<^verbatim>\<open>homeBannerMedia\<close>, \<^verbatim>\<open>DEFAULT_HOME_BANNER_FILE_NAME\<close> and
  \<^verbatim>\<open>DEFAULT_INFUSION_BACKGROUND_FILE_NAME\<close> come from \<^verbatim>\<open>@/data/home-banner-media\<close>;
  every function below takes them as parameters.
\<close>

datatype media_type = image_media | video_media

record BannerMedia =
  fileName :: string
  name :: string
  type :: media_type

section \<open>\<^verbatim>\<open>migrateUserSettingsStep\<close>\<close>

text \<open>
  \<^verbatim>\<open>generateShortId\<close> draws eight hexadecimal digits from a random UUID. The
  parameter \<open>generateShortId\<close> gives the identifier returned by the \<open>n\<close>-th call
  made during one step.
\<close>

subsection \<open>Version 1 to 2: the system icon preference\<close>

definition migrate_1_2 :: "storage \<Rightarrow> storage" where
  "migrate_1_2 s =
     (let oldSystemIconsValue = storage_get s ''navigator.useSystemIcons'';
          oldSystemIcons = (if typeof oldSystemIconsValue = TBoolean then oldSystemIconsValue else None);
          hasDirectoriesValue = storage_get s ''navigator.useSystemIconsForDirectories'';
          hasFilesValue = storage_get s ''navigator.useSystemIconsForFiles'';
          directoriesAlreadySet = (typeof hasDirectoriesValue = TBoolean);
          filesAlreadySet = (typeof hasFilesValue = TBoolean);
          s1 = (case oldSystemIcons of
                  Some v \<Rightarrow>
                    if \<not> directoriesAlreadySet
                    then storage_set s ''navigator.useSystemIconsForDirectories'' v else s
                | None \<Rightarrow> s)
      in (case oldSystemIcons of
            Some v \<Rightarrow>
              if \<not> filesAlreadySet
              then storage_set s1 ''navigator.useSystemIconsForFiles'' v else s1
          | None \<Rightarrow> s1))"

subsection \<open>Version 2 to 3: custom media records and position keys\<close>

definition migrateCustomMedia :: "(nat \<Rightarrow> string) \<Rightarrow> storage \<Rightarrow> jval list \<times> storage" where
  "migrateCustomMedia generateShortId s =
     (case storage_get s ''homeBannerCustomMedia'' of
        Some (JArr customMediaValue) \<Rightarrow>
          (let isLegacyFormat =
                 (customMediaValue \<noteq> [] \<and> typeof (Some (hd customMediaValue)) = TString)
           in if isLegacyFormat
              then (let migratedCustom =
                          map (\<lambda>(n, path). JObj [(''path'', path), (''id'', JStr (generateShortId n))])
                            (enumerate 0 customMediaValue)
                    in (migratedCustom, storage_set s ''homeBannerCustomMedia'' (JArr migratedCustom)))
              else (customMediaValue, s))
      | _ \<Rightarrow> ([], s))"

definition validPosition :: "jval \<Rightarrow> jval" where
  "validPosition position =
     JObj [(''positionX'', (case get_prop position ''positionX'' of
                              Some (JNum x) \<Rightarrow> JNum x | _ \<Rightarrow> JNum 50)),
           (''positionY'', (case get_prop position ''positionY'' of
                              Some (JNum y) \<Rightarrow> JNum y | _ \<Rightarrow> JNum 50)),
           (''zoom'', (case get_prop position ''zoom'' of
                         Some (JNum z) \<Rightarrow> JNum z | _ \<Rightarrow> JNum 100))]"

text \<open>
  The loop over \<^verbatim>\<open>Object.entries(positionsValue)\<close>, with \<open>migratedPositions\<close> as
  the accumulator. \<^verbatim>\<open>migratedCustom[index].id\<close> throws a \<^verbatim>\<open>TypeError\<close> when the
  element is \<^verbatim>\<open>undefined\<close> (a negative index) or \<^verbatim>\<open>null\<close>, and so does the use of the
  id as a property key when it has no primitive value; \<open>None\<close> is that error.
\<close>

fun migratePositions ::
  "(rat \<Rightarrow> string) \<Rightarrow> jval list \<Rightarrow> BannerMedia list \<Rightarrow> (string \<times> jval) list \<Rightarrow>
   plain_object \<Rightarrow> plain_object option" where
  "migratePositions numberToString migratedCustom homeBannerMedia [] migratedPositions =
     Some migratedPositions"
| "migratePositions numberToString migratedCustom homeBannerMedia ((key, position) # rest) migratedPositions =
     (if \<not> truthy (Some position) \<or> typeof (Some position) \<noteq> TObject
      then migratePositions numberToString migratedCustom homeBannerMedia rest migratedPositions
      else (case parseInt key of
              None \<Rightarrow>
                migratePositions numberToString migratedCustom homeBannerMedia rest
                  (assign migratedPositions key position)
            | Some index \<Rightarrow>
                if index < int (length migratedCustom)
                then (case nth_opt migratedCustom index of
                        None \<Rightarrow> None
                      | Some JNull \<Rightarrow> None
                      | Some entry \<Rightarrow>
                          (case to_property_key numberToString (get_prop entry ''id'') of
                             None \<Rightarrow> None
                           | Some k \<Rightarrow>
                               migratePositions numberToString migratedCustom homeBannerMedia rest
                                 (assign migratedPositions k (validPosition position))))
                else (let builtinIndex = index - int (length migratedCustom)
                      in if builtinIndex \<ge> 0 \<and> builtinIndex < int (length homeBannerMedia)
                         then migratePositions numberToString migratedCustom homeBannerMedia rest
                                (assign migratedPositions
                                   (fileName (homeBannerMedia ! nat builtinIndex))
                                   (validPosition position))
                         else migratePositions numberToString migratedCustom homeBannerMedia rest
                                migratedPositions)))"

definition hasNumericKeys :: "jval option \<Rightarrow> bool" where
  "hasNumericKeys positionsValue =
     (truthy positionsValue \<and> typeof positionsValue = TObject \<and>
      list_ex digits_only (map fst (own_entries (the positionsValue))))"

definition migrate_2_3 ::
  "(rat \<Rightarrow> string) \<Rightarrow> (nat \<Rightarrow> string) \<Rightarrow> BannerMedia list \<Rightarrow> storage \<Rightarrow> storage outcome" where
  "migrate_2_3 numberToString generateShortId homeBannerMedia s =
     (let (migratedCustom, s1) = migrateCustomMedia generateShortId s;
          positionsValue = storage_get s1 ''homeBannerPositions''
      in if hasNumericKeys positionsValue
         then (case migratePositions numberToString migratedCustom homeBannerMedia
                      (own_entries (the positionsValue)) empty_object of
                 None \<Rightarrow> Threw TypeError s1
               | Some migratedPositions \<Rightarrow>
                   Returned (storage_set s1 ''homeBannerPositions''
                               (JObj (own migratedPositions))))
         else Returned s1)"

subsection \<open>Version 3 to 4: the selected media id\<close>

definition isBlankMediaId :: "jval option \<Rightarrow> bool" where
  "isBlankMediaId mediaIdValue =
     (\<not> truthy mediaIdValue \<or> typeof mediaIdValue \<noteq> TString \<or>
      (case mediaIdValue of Some (JStr str) \<Rightarrow> trim str = [] | _ \<Rightarrow> False))"

definition resolveMediaId :: "BannerMedia list \<Rightarrow> string \<Rightarrow> jval option \<Rightarrow> jval option \<Rightarrow> jval" where
  "resolveMediaId homeBannerMedia DEFAULT_HOME_BANNER_FILE_NAME customMediaValue indexValue =
     (let customItems = (case customMediaValue of Some (JArr xs) \<Rightarrow> xs | _ \<Rightarrow> []);
          customCount = length customItems;
          rawIndex = (case indexValue of Some (JNum r) \<Rightarrow> r | _ \<Rightarrow> 0);
          totalCount = customCount + length homeBannerMedia
      in if totalCount > 0 \<and> rawIndex \<ge> 0 \<and> rawIndex < of_nat totalCount
         then (if rawIndex < of_nat customCount
               then (let entry = js_nth customItems rawIndex
                     in if truthy entry \<and> typeof entry = TObject \<and>
                           truthy (get_prop (the entry) ''id'')
                        then the (get_prop (the entry) ''id'')
                        else JStr DEFAULT_HOME_BANNER_FILE_NAME)
               else (let builtinIndex = rawIndex - of_nat customCount
                     in case js_nth homeBannerMedia builtinIndex of
                          Some media \<Rightarrow> JStr (fileName media)
                        | None \<Rightarrow> JStr DEFAULT_HOME_BANNER_FILE_NAME))
         else JStr DEFAULT_HOME_BANNER_FILE_NAME)"

definition migrate_3_4 :: "BannerMedia list \<Rightarrow> string \<Rightarrow> storage \<Rightarrow> storage" where
  "migrate_3_4 homeBannerMedia DEFAULT_HOME_BANNER_FILE_NAME s =
     (let mediaIdValue = storage_get s ''homeBannerMediaId'';
          indexValue = storage_get s ''homeBannerIndex''
      in if isBlankMediaId mediaIdValue
         then (let customMediaValue = storage_get s ''homeBannerCustomMedia''
               in storage_set s ''homeBannerMediaId''
                    (resolveMediaId homeBannerMedia DEFAULT_HOME_BANNER_FILE_NAME
                       customMediaValue indexValue))
         else s)"

subsection \<open>Version 4 to 5: the page background descriptors\<close>

definition infusionPageKeys :: "string list" where
  "infusionPageKeys = [''global'', ''home'', ''navigator'', ''dashboard'', ''settings'', ''extensions'']"

definition backgroundKey :: "string \<Rightarrow> string" where
  "backgroundKey pageKey = ''infusion.pages.'' @ pageKey @ ''.background''"

definition migrateBackground :: "BannerMedia list \<Rightarrow> storage \<Rightarrow> string \<Rightarrow> storage" where
  "migrateBackground homeBannerMedia s pageKey =
     (let storageKey = backgroundKey pageKey;
          background = storage_get s storageKey
      in if truthy background \<and> typeof background = TObject \<and>
            \<not> truthy (get_prop (the background) ''mediaId'') \<and>
            typeof (get_prop (the background) ''index'') = TNumber
         then (let builtinIndex = (case get_prop (the background) ''index'' of
                                     Some (JNum r) \<Rightarrow> r | _ \<Rightarrow> 0)
               in case js_nth homeBannerMedia builtinIndex of
                    Some media \<Rightarrow>
                      storage_set s storageKey
                        (JObj (obj_set (own_entries (the background)) ''mediaId''
                                 (JStr (fileName media))))
                  | None \<Rightarrow> s)
         else s)"

definition migrate_4_5 :: "BannerMedia list \<Rightarrow> storage \<Rightarrow> storage" where
  "migrate_4_5 homeBannerMedia s = foldl (migrateBackground homeBannerMedia) s infusionPageKeys"

subsection \<open>The step\<close>

definition migrateUserSettingsStep ::
  "(rat \<Rightarrow> string) \<Rightarrow> (nat \<Rightarrow> string) \<Rightarrow> BannerMedia list \<Rightarrow> string \<Rightarrow>
   storage \<Rightarrow> nat \<Rightarrow> nat \<Rightarrow> storage outcome" where
  "migrateUserSettingsStep numberToString generateShortId homeBannerMedia
       DEFAULT_HOME_BANNER_FILE_NAME s fromVersion toVersion =
     (if fromVersion = 0 \<and> toVersion = 1 then Returned s
      else if fromVersion = 1 \<and> toVersion = 2 then Returned (migrate_1_2 s)
      else if fromVersion = 2 \<and> toVersion = 3
        then migrate_2_3 numberToString generateShortId homeBannerMedia s
      else if fromVersion = 3 \<and> toVersion = 4
        then Returned (migrate_3_4 homeBannerMedia DEFAULT_HOME_BANNER_FILE_NAME s)
      else if fromVersion = 4 \<and> toVersion = 5
        then Returned (migrate_4_5 homeBannerMedia s)
      else Returned s)"

section \<open>\<^verbatim>\<open>useHomeBannerMedia\<close>: the media catalog\<close>

text \<open>
  The composable reads the typed settings object of the settings store. A custom entry
  has the fields \<^verbatim>\<open>path\<close> and \<^verbatim>\<open>id\<close> (here \<open>id'\<close>); an absent setting is \<open>None\<close>.
\<close>

record HomeBannerCustomMediaItem =
  path :: string
  id' :: string

record HomeBannerPosition =
  positionX :: rat
  positionY :: rat
  zoom :: rat

text \<open>
  Modelled from the spec: the settings store \<^verbatim>\<open>stores/storage/user-settings\<close>, which is
  not among the sources. Its \<^verbatim>\<open>set(key, value)\<close> stores the value under the key, and a
  later read of \<^verbatim>\<open>userSettings\<close> returns it: the components that use the store
  (\<^verbatim>\<open>dropdown-focus.vue\<close>, \<^verbatim>\<open>last-tab-close-behavior.vue\<close>) write a setting with
  \<^verbatim>\<open>set\<close> alone and read it back from \<^verbatim>\<open>userSettings\<close>. The computed values of the
  composable (\<^verbatim>\<open>allMediaItems\<close>, \<^verbatim>\<open>normalizedIndex\<close>) are functions of the settings
  at the moment they are read. \<open>stored\<close> lists the keys passed to \<^verbatim>\<open>set\<close>, oldest first.
\<close>

record userSettings =
  homeBannerCustomMedia :: "HomeBannerCustomMediaItem list option"
  homeBannerPositions :: "(string \<rightharpoonup> HomeBannerPosition) option"
  homeBannerMediaId :: "string option"
  homeBannerIndex :: int
  stored :: "string list"

definition set_homeBannerCustomMedia ::
  "userSettings \<Rightarrow> HomeBannerCustomMediaItem list \<Rightarrow> userSettings" where
  "set_homeBannerCustomMedia s v =
     s\<lparr>homeBannerCustomMedia := Some v, stored := stored s @ [''homeBannerCustomMedia'']\<rparr>"

definition set_homeBannerPositions ::
  "userSettings \<Rightarrow> (string \<rightharpoonup> HomeBannerPosition) \<Rightarrow> userSettings" where
  "set_homeBannerPositions s v =
     s\<lparr>homeBannerPositions := Some v, stored := stored s @ [''homeBannerPositions'']\<rparr>"

definition set_homeBannerMediaId :: "userSettings \<Rightarrow> string \<Rightarrow> userSettings" where
  "set_homeBannerMediaId s v =
     s\<lparr>homeBannerMediaId := Some v, stored := stored s @ [''homeBannerMediaId'']\<rparr>"

definition set_homeBannerIndex :: "userSettings \<Rightarrow> int \<Rightarrow> userSettings" where
  "set_homeBannerIndex s v =
     s\<lparr>homeBannerIndex := v, stored := stored s @ [''homeBannerIndex'']\<rparr>"

datatype MediaItem =
    builtin nat BannerMedia
  | custom nat string string string media_type

text \<open>The arguments of \<open>builtin\<close> are \<^verbatim>\<open>index\<close> and \<^verbatim>\<open>data\<close>; those of \<open>custom\<close> are
  \<^verbatim>\<open>index\<close>, \<^verbatim>\<open>path\<close>, \<^verbatim>\<open>id\<close>, \<^verbatim>\<open>fileName\<close> and \<^verbatim>\<open>type\<close>.\<close>

definition isUrl :: "string \<Rightarrow> bool" where
  "isUrl val = (startsWith val ''http://'' \<or> startsWith val ''https://'')"

definition to_lower :: "char \<Rightarrow> char" where
  "to_lower c =
     (let n = (of_char c :: nat)
      in if (65 \<le> n \<and> n \<le> 90) \<or> (192 \<le> n \<and> n \<le> 222 \<and> n \<noteq> 215) then char_of (n + 32) else c)"

text \<open>\<^verbatim>\<open>s.split(/[/\\]/).pop()\<close>: what follows the last slash or backslash.\<close>

definition last_segment :: "string \<Rightarrow> string" where
  "last_segment s = rev (takeWhile (\<lambda>c. c \<noteq> CHR ''/'' \<and> c \<noteq> CHR 0x5C) (rev s))"

text \<open>
  \<open>urlPathname\<close> is \<^verbatim>\<open>new URL(s).pathname\<close>, \<open>None\<close> when the constructor throws.
\<close>

definition getExtension :: "(string \<Rightarrow> string option) \<Rightarrow> string \<Rightarrow> string" where
  "getExtension urlPathname pathOrUrl =
     (let cleanPath =
            (if isUrl pathOrUrl
             then (case urlPathname pathOrUrl of
                     Some pathname \<Rightarrow> pathname
                   | None \<Rightarrow> takeWhile (\<lambda>c. c \<noteq> CHR ''#'') (takeWhile (\<lambda>c. c \<noteq> CHR ''?'') pathOrUrl))
             else pathOrUrl)
      in if CHR ''.'' \<in> set cleanPath
         then map to_lower (rev (takeWhile (\<lambda>c. c \<noteq> CHR ''.'') (rev cleanPath)))
         else [])"

definition isVideoExtension :: "string \<Rightarrow> bool" where
  "isVideoExtension ext = (ext \<in> set [''mp4'', ''webm'', ''ogg'', ''mov'', ''avi'', ''mkv''])"

definition customItems :: "userSettings \<Rightarrow> HomeBannerCustomMediaItem list" where
  "customItems s = (case homeBannerCustomMedia s of None \<Rightarrow> [] | Some raw \<Rightarrow> raw)"

definition allMediaItems ::
  "(string \<Rightarrow> string option) \<Rightarrow> BannerMedia list \<Rightarrow> userSettings \<Rightarrow> MediaItem list" where
  "allMediaItems urlPathname homeBannerMedia s =
     map (\<lambda>(index, entry).
            let fileName = last_segment (path entry);
                ext = getExtension urlPathname fileName
            in custom index (path entry) (id' entry) fileName
                 (if isVideoExtension ext then video_media else image_media))
         (enumerate 0 (customItems s))
     @ map (\<lambda>(index, data). builtin index data) (enumerate 0 homeBannerMedia)"

definition totalCount :: "BannerMedia list \<Rightarrow> userSettings \<Rightarrow> nat" where
  "totalCount homeBannerMedia s = length (customItems s) + length homeBannerMedia"

definition mediaId :: "string \<Rightarrow> userSettings \<Rightarrow> string" where
  "mediaId DEFAULT_HOME_BANNER_FILE_NAME s =
     (case homeBannerMediaId s of
        Some i \<Rightarrow> if trim i \<noteq> [] then i else DEFAULT_HOME_BANNER_FILE_NAME
      | None \<Rightarrow> DEFAULT_HOME_BANNER_FILE_NAME)"

fun getPositionKey :: "MediaItem \<Rightarrow> string" where
  "getPositionKey (builtin index data) = fileName data"
| "getPositionKey (custom index p i f t) = i"

fun findIndex :: "('a \<Rightarrow> bool) \<Rightarrow> 'a list \<Rightarrow> int" where
  "findIndex P [] = - 1"
| "findIndex P (x # xs) =
     (if P x then 0 else (if findIndex P xs < 0 then - 1 else findIndex P xs + 1))"

fun isBuiltinNamed :: "string \<Rightarrow> MediaItem \<Rightarrow> bool" where
  "isBuiltinNamed n (builtin index data) = (fileName data = n)"
| "isBuiltinNamed n (custom index p i f t) = False"

definition normalizedIndex ::
  "(string \<Rightarrow> string option) \<Rightarrow> BannerMedia list \<Rightarrow> string \<Rightarrow> userSettings \<Rightarrow> int" where
  "normalizedIndex urlPathname homeBannerMedia DEFAULT_HOME_BANNER_FILE_NAME s =
     (let items = allMediaItems urlPathname homeBannerMedia s;
          targetId = mediaId DEFAULT_HOME_BANNER_FILE_NAME s
      in if items = [] then 0
         else (let foundIndex = findIndex (\<lambda>item. getPositionKey item = targetId) items
               in if foundIndex \<ge> 0 then foundIndex
                  else (let defaultIndex =
                              findIndex (isBuiltinNamed DEFAULT_HOME_BANNER_FILE_NAME) items
                        in if defaultIndex \<ge> 0 then defaultIndex else 0)))"

text \<open>\<open>None\<close> is \<^verbatim>\<open>null\<close>.\<close>

definition currentItem ::
  "(string \<Rightarrow> string option) \<Rightarrow> BannerMedia list \<Rightarrow> string \<Rightarrow> userSettings \<Rightarrow> MediaItem option" where
  "currentItem urlPathname homeBannerMedia DEFAULT_HOME_BANNER_FILE_NAME s =
     nth_opt (allMediaItems urlPathname homeBannerMedia s)
       (normalizedIndex urlPathname homeBannerMedia DEFAULT_HOME_BANNER_FILE_NAME s)"

text \<open>
  \<open>builtinBannerImages\<close> and \<open>builtinBannerVideos\<close> are the tables that
  \<^verbatim>\<open>import.meta.glob\<close> builds (asset path, url), \<open>convertFileSrc\<close> is the function
  of the Tauri API.
\<close>

definition getBuiltinMediaUrl ::
  "(string \<times> string) list \<Rightarrow> (string \<times> string) list \<Rightarrow> BannerMedia \<Rightarrow> string" where
  "getBuiltinMediaUrl builtinBannerImages builtinBannerVideos item =
     (let mediaMap = (if type item = video_media then builtinBannerVideos else builtinBannerImages)
      in case find (\<lambda>p. str_includes p (fileName item)) (map fst mediaMap) of
           Some key \<Rightarrow> (if key \<noteq> [] then (case map_of mediaMap key of Some u \<Rightarrow> u | None \<Rightarrow> [])
                        else [])
         | None \<Rightarrow> [])"

fun getMediaUrl ::
  "(string \<times> string) list \<Rightarrow> (string \<times> string) list \<Rightarrow> (string \<Rightarrow> string) \<Rightarrow> MediaItem \<Rightarrow> string" where
  "getMediaUrl builtinBannerImages builtinBannerVideos convertFileSrc (builtin index data) =
     getBuiltinMediaUrl builtinBannerImages builtinBannerVideos data"
| "getMediaUrl builtinBannerImages builtinBannerVideos convertFileSrc (custom index p i f t) =
     (if isUrl p then p else convertFileSrc p)"

fun mediaTypeOf :: "MediaItem \<Rightarrow> media_type" where
  "mediaTypeOf (builtin index data) = type data"
| "mediaTypeOf (custom index p i f t) = t"

subsection \<open>Adding custom media\<close>

text \<open>\<^verbatim>\<open>invoke\<close> resolves with a value or rejects; \<^verbatim>\<open>copy_items\<close> resolves with
  \<^verbatim>\<open>success\<close> and an optional \<^verbatim>\<open>error\<close>.\<close>

datatype 'a invoked = Resolves 'a | Rejects string

text \<open>\<^verbatim>\<open>s.replace(/\/+/g, '/')\<close>.\<close>

fun collapse_slashes :: "string \<Rightarrow> string" where
  "collapse_slashes (a # b # cs) =
     (if a = CHR ''/'' \<and> b = CHR ''/'' then collapse_slashes (b # cs)
      else a # collapse_slashes (b # cs))"
| "collapse_slashes cs = cs"

definition destinationPath :: "string \<Rightarrow> string \<Rightarrow> string" where
  "destinationPath destDir src =
     collapse_slashes
       (map (\<lambda>c. if c = CHR 0x5C then CHR ''/'' else c) destDir @ ''/'' @ last_segment src)"

definition addFilesFromPaths ::
  "(nat \<Rightarrow> string) \<Rightarrow> string option \<Rightarrow> unit invoked \<Rightarrow> (bool \<times> string option) invoked \<Rightarrow>
   string list \<Rightarrow> userSettings \<Rightarrow> userSettings outcome" where
  "addFilesFromPaths generateShortId destDirValue ensure_directory copy_items sourcePaths s =
     (if sourcePaths = [] then Returned s
      else (case destDirValue of
              None \<Rightarrow> Returned s
            | Some destDir \<Rightarrow>
                if destDir = [] then Returned s
                else (case ensure_directory of
                        Rejects e \<Rightarrow> Threw (Rejected e) s
                      | Resolves u \<Rightarrow>
                          (case copy_items of
                             Rejects e \<Rightarrow> Threw (Rejected e) s
                           | Resolves (success, err) \<Rightarrow>
                               if \<not> success \<and> err \<noteq> None \<and> err \<noteq> Some []
                               then Threw (Error (the err)) s
                               else (let newEntries =
                                           map (\<lambda>(n, src). \<lparr>path = destinationPath destDir src,
                                                             id' = generateShortId n\<rparr>)
                                             (enumerate 0 sourcePaths);
                                         currentCustom = customItems s;
                                         updated = currentCustom @ newEntries;
                                         s1 = set_homeBannerCustomMedia s updated;
                                         firstNewIndex = length currentCustom;
                                         s2 = set_homeBannerMediaId s1 (id' (updated ! firstNewIndex))
                                     in Returned (set_homeBannerIndex s2 (int firstNewIndex)))))))"

definition addMediaUrl :: "(nat \<Rightarrow> string) \<Rightarrow> string \<Rightarrow> userSettings \<Rightarrow> userSettings" where
  "addMediaUrl generateShortId url s =
     (let trimmedUrl = trim url
      in if trimmedUrl = [] \<or> \<not> isUrl trimmedUrl then s
         else (let currentCustom = customItems s;
                   exists = list_ex (\<lambda>entry. path entry = trimmedUrl) currentCustom
               in if exists then s
                  else (let newEntry = \<lparr>path = trimmedUrl, id' = generateShortId 0\<rparr>;
                            updated = currentCustom @ [newEntry];
                            s1 = set_homeBannerCustomMedia s updated;
                            newIndex = length currentCustom;
                            s2 = set_homeBannerMediaId s1 (id' (updated ! newIndex))
                        in set_homeBannerIndex s2 (int newIndex))))"

subsection \<open>Removing custom media\<close>

text \<open>
  The test \<^verbatim>\<open>homeBannerPositions?.[removedEntry.id]\<close> holds when a position is saved
  under the id, and also when the id is a name that the map inherits from
  \<^verbatim>\<open>Object.prototype\<close>.
\<close>

fun isCustomAt :: "string \<Rightarrow> MediaItem \<Rightarrow> bool" where
  "isCustomAt q (builtin index data) = False"
| "isCustomAt q (custom index p i f t) = (p = q)"

definition removeCustomMedia ::
  "(string \<Rightarrow> string option) \<Rightarrow> BannerMedia list \<Rightarrow> string \<Rightarrow> string \<Rightarrow> userSettings \<Rightarrow> userSettings" where
  "removeCustomMedia urlPathname homeBannerMedia DEFAULT_HOME_BANNER_FILE_NAME q s =
     (let currentCustom = customItems s;
          removedEntry = find (\<lambda>entry. path entry = q) currentCustom;
          filtered = filter (\<lambda>entry. path entry \<noteq> q) currentCustom;
          s1 = set_homeBannerCustomMedia s filtered;
          s2 = (case removedEntry of
                  None \<Rightarrow> s1
                | Some e \<Rightarrow>
                    (case homeBannerPositions s1 of
                       None \<Rightarrow> s1
                     | Some positions \<Rightarrow>
                         if positions (id' e) \<noteq> None \<or> id' e \<in> set object_prototype_names
                         then set_homeBannerPositions s1 (positions(id' e := None))
                         else s1));
          itemsAfter = int (length filtered) + int (length homeBannerMedia);
          currentIdx = normalizedIndex urlPathname homeBannerMedia DEFAULT_HOME_BANNER_FILE_NAME s2;
          itemsBefore = allMediaItems urlPathname homeBannerMedia s2;
          removeIdx = findIndex (isCustomAt q) itemsBefore;
          newIndex1 = (if removeIdx \<ge> 0 \<and> currentIdx \<ge> removeIdx \<and> currentIdx > 0
                       then max 0 (currentIdx - 1) else currentIdx);
          newIndex = min (max 0 newIndex1) (itemsAfter - 1);
          resolvedMediaId =
            (if itemsAfter > 0
             then (if newIndex < int (length filtered)
                   then (case nth_opt filtered newIndex of
                           Some e \<Rightarrow> id' e
                         | None \<Rightarrow> DEFAULT_HOME_BANNER_FILE_NAME)
                   else (case nth_opt homeBannerMedia (newIndex - int (length filtered)) of
                           Some m \<Rightarrow> fileName m
                         | None \<Rightarrow> DEFAULT_HOME_BANNER_FILE_NAME))
             else DEFAULT_HOME_BANNER_FILE_NAME);
          s3 = set_homeBannerMediaId s2 resolvedMediaId
      in set_homeBannerIndex s3 newIndex)"

section \<open>\<^verbatim>\<open>getInfusionMediaFromBackground\<close>\<close>

text \<open>The background descriptor has the optional fields \<^verbatim>\<open>index\<close> and \<^verbatim>\<open>mediaId\<close>;
  the result is the pair of \<^verbatim>\<open>url\<close> and \<^verbatim>\<open>type\<close>.\<close>

record background =
  bgIndex :: "rat option"
  bgMediaId :: "string option"

definition getInfusionMediaFromBackground ::
  "(string \<Rightarrow> string option) \<Rightarrow> BannerMedia list \<Rightarrow> string \<Rightarrow>
   (string \<times> string) list \<Rightarrow> (string \<times> string) list \<Rightarrow> (string \<Rightarrow> string) \<Rightarrow>
   userSettings \<Rightarrow> background \<Rightarrow> string \<times> media_type" where
  "getInfusionMediaFromBackground urlPathname homeBannerMedia DEFAULT_INFUSION_BACKGROUND_FILE_NAME
       builtinBannerImages builtinBannerVideos convertFileSrc s bg =
     (let mediaId = (case bgMediaId bg of
                       Some i \<Rightarrow> if trim i \<noteq> [] then i else DEFAULT_INFUSION_BACKGROUND_FILE_NAME
                     | None \<Rightarrow> DEFAULT_INFUSION_BACKGROUND_FILE_NAME);
          items = allMediaItems urlPathname homeBannerMedia s
      in case find (\<lambda>i. getPositionKey i = mediaId) items of
           Some item \<Rightarrow>
             (getMediaUrl builtinBannerImages builtinBannerVideos convertFileSrc item,
              mediaTypeOf item)
         | None \<Rightarrow>
             (let fallback =
                    (case find (isBuiltinNamed DEFAULT_INFUSION_BACKGROUND_FILE_NAME) items of
                       Some d \<Rightarrow> Some d
                     | None \<Rightarrow> nth_opt items 0)
              in case fallback of
                   Some item \<Rightarrow>
                     (getMediaUrl builtinBannerImages builtinBannerVideos convertFileSrc item,
                      mediaTypeOf item)
                 | None \<Rightarrow> ([], image_media)))"

section \<open>Concrete inputs\<close>

text \<open>Stores, settings and manifests on which the properties below are evaluated.\<close>

definition icons_storage :: storage where
  "icons_storage =
     \<lparr>contents = [''navigator.useSystemIcons'' \<mapsto> JBool True,
                  ''navigator.useSystemIconsForFiles'' \<mapsto> JBool False],
      writes = []\<rparr>"

definition no_icons_storage :: storage where
  "no_icons_storage = \<lparr>contents = [''navigator.useSystemIcons'' \<mapsto> JStr ''yes''], writes = []\<rparr>"

definition catalog_manifest :: "BannerMedia list" where
  "catalog_manifest = [\<lparr>fileName = ''default.jpg'', name = ''Default'', type = image_media\<rparr>]"

definition two_custom_settings :: userSettings where
  "two_custom_settings =
     \<lparr>homeBannerCustomMedia = Some [\<lparr>path = ''/a.jpg'', id' = ''aaaaaaaa''\<rparr>,
                                    \<lparr>path = ''/b.mp4'', id' = ''bbbbbbbb''\<rparr>],
      homeBannerPositions = Some [''bbbbbbbb'' \<mapsto> \<lparr>positionX = 10, positionY = 20, zoom = 100\<rparr>],
      homeBannerMediaId = Some ''bbbbbbbb'',
      homeBannerIndex = 1,
      stored = []\<rparr>"

definition empty_settings :: userSettings where
  "empty_settings =
     \<lparr>homeBannerCustomMedia = None, homeBannerPositions = None, homeBannerMediaId = None,
      homeBannerIndex = 0, stored = []\<rparr>"

definition url_settings :: userSettings where
  "url_settings =
     \<lparr>homeBannerCustomMedia = Some [\<lparr>path = ''https://x.org/v.webm'', id' = ''aaaaaaaa''\<rparr>],
      homeBannerPositions = None, homeBannerMediaId = Some ''aaaaaaaa'', homeBannerIndex = 0,
      stored = []\<rparr>"

definition background_storage :: storage where
  "background_storage =
     \<lparr>contents =
        [''infusion.pages.home.background'' \<mapsto>
           JObj [(''type'', JStr ''image''), (''path'', JStr ''default.jpg''), (''index'', JNum 0)],
         ''infusion.pages.settings.background'' \<mapsto>
           JObj [(''type'', JStr ''image''), (''index'', JNum 0), (''mediaId'', JStr ''other.jpg'')]],
      writes = []\<rparr>"

definition blank_id_storage :: storage where
  "blank_id_storage =
     \<lparr>contents = [''homeBannerCustomMedia'' \<mapsto> JArr [JObj [(''path'', JStr ''/a.jpg''), (''id'', JStr [])]],
                  ''homeBannerIndex'' \<mapsto> JNum 0],
      writes = []\<rparr>"

definition selected_index_storage :: "rat \<Rightarrow> storage" where
  "selected_index_storage i =
     \<lparr>contents = [''homeBannerCustomMedia'' \<mapsto>
                     JArr [JObj [(''path'', JStr ''/a.jpg''), (''id'', JStr ''aaaaaaaa'')]],
                  ''homeBannerIndex'' \<mapsto> JNum i],
      writes = []\<rparr>"

text \<open>
  The rewriting of one entry of the position map, in the words of the specification: an
  entry counts when its value is an object; a key that \<^verbatim>\<open>parseInt\<close> does not read as a
  number is kept, an index below the custom count becomes the id of that custom entry
  as a property key (none when the id has no primitive value), an index in the builtin
  range becomes the file name at the offset, and any other index has no new key. A kept
  key keeps its value, a rewritten one gets the normalised position.
\<close>

definition isPositionObject :: "jval \<Rightarrow> bool" where
  "isPositionObject position = (truthy (Some position) \<and> typeof (Some position) = TObject)"

definition rewritten_key ::
  "(rat \<Rightarrow> string) \<Rightarrow> jval list \<Rightarrow> BannerMedia list \<Rightarrow> string \<Rightarrow> string option" where
  "rewritten_key numberToString customEntries homeBannerMedia key =
     (case parseInt key of
        None \<Rightarrow> Some key
      | Some i \<Rightarrow>
          if 0 \<le> i \<and> i < int (length customEntries)
          then to_property_key numberToString (get_prop (customEntries ! nat i) ''id'')
          else if int (length customEntries) \<le> i \<and>
                  i < int (length customEntries) + int (length homeBannerMedia)
          then Some (fileName (homeBannerMedia ! nat (i - int (length customEntries))))
          else None)"

definition rewritten_entry ::
  "(rat \<Rightarrow> string) \<Rightarrow> jval list \<Rightarrow> BannerMedia list \<Rightarrow> string \<times> jval \<Rightarrow> (string \<times> jval) option" where
  "rewritten_entry numberToString customEntries homeBannerMedia entry =
     (if isPositionObject (snd entry)
      then (case rewritten_key numberToString customEntries homeBannerMedia (fst entry) of
              None \<Rightarrow> None
            | Some k \<Rightarrow>
                Some (k, if parseInt (fst entry) = None then snd entry else validPosition (snd entry)))
      else None)"

definition rewritten_entries ::
  "(rat \<Rightarrow> string) \<Rightarrow> jval list \<Rightarrow> BannerMedia list \<Rightarrow> (string \<times> jval) list \<Rightarrow> (string \<times> jval) list" where
  "rewritten_entries numberToString customEntries homeBannerMedia ps =
     List.map_filter (rewritten_entry numberToString customEntries homeBannerMedia) ps"

definition position :: "rat \<Rightarrow> rat \<Rightarrow> rat \<Rightarrow> jval" where
  "position x y z = JObj [(''positionX'', JNum x), (''positionY'', JNum y), (''zoom'', JNum z)]"

definition legacy_storage :: storage where
  "legacy_storage =
     \<lparr>contents = [''homeBannerCustomMedia'' \<mapsto> JArr [JStr ''/a.jpg'', JStr ''/b.jpg''],
                  ''homeBannerPositions'' \<mapsto>
                     JObj [(''0'', position 10 20 100), (''2'', position 50 50 100)]],
      writes = []\<rparr>"

definition digit_ids :: "nat \<Rightarrow> string" where
  "digit_ids n = (if n = 0 then ''12345678'' else ''9f8e7d6c'')"

definition letter_ids :: "nat \<Rightarrow> string" where
  "letter_ids n = (if n = 0 then ''aaaaaaaa'' else ''bbbbbbbb'')"


definition verbatim_storage :: storage where
  "verbatim_storage =
     \<lparr>contents = [''homeBannerCustomMedia'' \<mapsto> JArr [JStr ''/a.jpg''],
                  ''homeBannerPositions'' \<mapsto>
                     JObj [(''0'', position 10 20 100),
                           (''note'', JObj [(''positionX'', JStr ''left'')])]],
      writes = []\<rparr>"

definition scenario_storage :: storage where
  "scenario_storage =
     \<lparr>contents = [''homeBannerCustomMedia'' \<mapsto> JArr [JStr ''/a.jpg'', JStr ''/b.jpg''],
                  ''homeBannerPositions'' \<mapsto>
                     JObj [(''0'', position 10 20 100), (''2'', JObj [(''zoom'', JNum 120)]),
                           (''5'', position 1 2 3), (''note'', JObj [(''positionX'', JNum 1)])]],
      writes = []\<rparr>"

definition builtin_selected_settings :: userSettings where
  "builtin_selected_settings =
     \<lparr>homeBannerCustomMedia = Some [\<lparr>path = ''/a.jpg'', id' = ''aaaaaaaa''\<rparr>,
                                    \<lparr>path = ''/b.mp4'', id' = ''bbbbbbbb''\<rparr>],
      homeBannerPositions = Some [''bbbbbbbb'' \<mapsto> \<lparr>positionX = 10, positionY = 20, zoom = 100\<rparr>],
      homeBannerMediaId = Some ''default.jpg'',
      homeBannerIndex = 2,
      stored = []\<rparr>"

definition duplicate_path_settings :: userSettings where
  "duplicate_path_settings =
     \<lparr>homeBannerCustomMedia = Some [\<lparr>path = ''/a.jpg'', id' = ''aaaaaaaa''\<rparr>,
                                    \<lparr>path = ''/a.jpg'', id' = ''bbbbbbbb''\<rparr>],
      homeBannerPositions = None,
      homeBannerMediaId = Some ''default.jpg'',
      homeBannerIndex = 2,
      stored = []\<rparr>"

definition stale_id_settings :: userSettings where
  "stale_id_settings =
     \<lparr>homeBannerCustomMedia = Some [\<lparr>path = ''/a.jpg'', id' = ''aaaaaaaa''\<rparr>,
                                    \<lparr>path = ''/b.mp4'', id' = ''bbbbbbbb''\<rparr>],
      homeBannerPositions = Some [''aaaaaaaa'' \<mapsto> \<lparr>positionX = 10, positionY = 20, zoom = 100\<rparr>],
      homeBannerMediaId = Some ''cccccccc'',
      homeBannerIndex = 2,
      stored = []\<rparr>"




section \<open>Properties of the migration steps\<close>

lemma typeof_boolean: "typeof v = TBoolean \<longleftrightarrow> (\<exists>b. v = Some (JBool b))"
  by (cases v rule: typeof.cases) auto

subsection \<open>Version 1 to 2\<close>

text \<open>
  Claim C8. The step from version 1 to 2 returns. When \<^verbatim>\<open>navigator.useSystemIcons\<close>
  holds a boolean, the calls of \<^verbatim>\<open>set\<close> it makes are exactly: that boolean under
  \<^verbatim>\<open>navigator.useSystemIconsForDirectories\<close> unless that key already holds a boolean,
  then that boolean under \<^verbatim>\<open>navigator.useSystemIconsForFiles\<close> unless that key already
  holds a boolean; a destination key that holds a boolean keeps it, and no other key
  changes. When the legacy key is absent or not a boolean, the storage (its contents and
  its record of writes) is left as it was.
\<close>

theorem migrate_1_2_system_icons:
  assumes "r = migrateUserSettingsStep numberToString generateShortId homeBannerMedia
                 DEFAULT_HOME_BANNER_FILE_NAME s 1 2"
  shows "r = Returned (state_of r) \<and>
    (contents s ''navigator.useSystemIcons'' = Some (JBool b) \<longrightarrow>
       writes (state_of r) = writes s @
         (if typeof (contents s ''navigator.useSystemIconsForDirectories'') = TBoolean then []
          else [(''navigator.useSystemIconsForDirectories'', JBool b)]) @
         (if typeof (contents s ''navigator.useSystemIconsForFiles'') = TBoolean then []
          else [(''navigator.useSystemIconsForFiles'', JBool b)]) \<and>
       contents (state_of r) ''navigator.useSystemIconsForDirectories'' =
         (if typeof (contents s ''navigator.useSystemIconsForDirectories'') = TBoolean
          then contents s ''navigator.useSystemIconsForDirectories'' else Some (JBool b)) \<and>
       contents (state_of r) ''navigator.useSystemIconsForFiles'' =
         (if typeof (contents s ''navigator.useSystemIconsForFiles'') = TBoolean
          then contents s ''navigator.useSystemIconsForFiles'' else Some (JBool b)) \<and>
       (\<forall>k. k \<noteq> ''navigator.useSystemIconsForDirectories'' \<and>
            k \<noteq> ''navigator.useSystemIconsForFiles''
            \<longrightarrow> contents (state_of r) k = contents s k)) \<and>
    (typeof (contents s ''navigator.useSystemIcons'') \<noteq> TBoolean \<longrightarrow> state_of r = s)"
  using assms
  by (auto simp: migrateUserSettingsStep_def migrate_1_2_def storage_get_def storage_set_def
      Let_def typeof_boolean split: option.splits)

theorem migrate_1_2_system_icons_witness:
  "writes (state_of (migrateUserSettingsStep (\<lambda>r. []) (\<lambda>n. []) [] [] icons_storage 1 2)) =
     [(''navigator.useSystemIconsForDirectories'', JBool True)]
   \<and> contents (state_of (migrateUserSettingsStep (\<lambda>r. []) (\<lambda>n. []) [] [] icons_storage 1 2))
        ''navigator.useSystemIconsForFiles'' = Some (JBool False)
   \<and> state_of (migrateUserSettingsStep (\<lambda>r. []) (\<lambda>n. []) [] [] no_icons_storage 1 2) =
        no_icons_storage"
  using migrate_1_2_system_icons [OF refl, of "\<lambda>r. []" "\<lambda>n. []" "[]" "[]" icons_storage True]
    migrate_1_2_system_icons [OF refl, of "\<lambda>r. []" "\<lambda>n. []" "[]" "[]" no_icons_storage True]
  by (simp add: icons_storage_def no_icons_storage_def)

section \<open>Properties of the media catalog\<close>

lemma findIndex_bounds: "- 1 \<le> findIndex P xs \<and> findIndex P xs < int (length xs)"
  by (induction xs) auto

lemma findIndex_find:
  "find P xs = (if findIndex P xs \<ge> 0 then Some (xs ! nat (findIndex P xs)) else None)"
proof (induction xs)
  case Nil
  show ?case by simp
next
  case (Cons x xs)
  have "- 1 \<le> findIndex P xs" using findIndex_bounds [of P xs] by simp
  with Cons show ?case by (auto simp: nat_add_distrib)
qed

lemma nth_opt_findIndex:
  "findIndex P xs \<ge> 0 \<Longrightarrow> nth_opt xs (findIndex P xs) = find P xs"
  using findIndex_bounds [of P xs] by (simp add: nth_opt_def findIndex_find)

lemma nth_opt_0: "nth_opt xs 0 = (case xs of [] \<Rightarrow> None | x # ys \<Rightarrow> Some x)"
  by (cases xs) (simp_all add: nth_opt_def)

lemma allMediaItems_length:
  "length (allMediaItems up hbm s) = length (customItems s) + length hbm"
  by (simp add: allMediaItems_def)

lemma allMediaItems_custom:
  assumes "i < length (customItems s)"
  shows "allMediaItems up hbm s ! i =
     custom i (path (customItems s ! i)) (id' (customItems s ! i))
       (last_segment (path (customItems s ! i)))
       (if isVideoExtension (getExtension up (last_segment (path (customItems s ! i)))) then video_media else image_media)"
  using assms by (simp add: allMediaItems_def nth_append nth_enumerate_eq Let_def)

lemma allMediaItems_builtin:
  assumes "length (customItems s) \<le> i" "i < length (customItems s) + length hbm"
  shows "allMediaItems up hbm s ! i = builtin (i - length (customItems s)) (hbm ! (i - length (customItems s)))"
  using assms by (simp add: allMediaItems_def nth_append nth_enumerate_eq)

text \<open>
  Claim C5. The catalog has the custom entries first, in their stored order, then the
  builtin entries in manifest order; its length is the sum of both counts. The item at
  a position below the custom count is the custom item of that entry and its position
  key is the entry's id; the item at a position from the custom count on is the builtin
  item at the offset and its position key is that file name.
\<close>

theorem allMediaItems_catalog_order:
  "length (allMediaItems up hbm s) = length (customItems s) + length hbm \<and>
   (\<forall>i < length (customItems s).
      (\<exists>f t. allMediaItems up hbm s ! i =
         custom i (path (customItems s ! i)) (id' (customItems s ! i)) f t) \<and>
      getPositionKey (allMediaItems up hbm s ! i) = id' (customItems s ! i)) \<and>
   (\<forall>i. length (customItems s) \<le> i \<and> i < length (customItems s) + length hbm \<longrightarrow>
      allMediaItems up hbm s ! i =
        builtin (i - length (customItems s)) (hbm ! (i - length (customItems s))) \<and>
      getPositionKey (allMediaItems up hbm s ! i) = fileName (hbm ! (i - length (customItems s))))"
  by (simp add: allMediaItems_length allMediaItems_custom allMediaItems_builtin)

theorem allMediaItems_catalog_order_witness:
  "getPositionKey (allMediaItems (\<lambda>u. None) catalog_manifest two_custom_settings ! 1) = ''bbbbbbbb'' \<and>
   allMediaItems (\<lambda>u. None) catalog_manifest two_custom_settings ! 2 =
     builtin 0 \<lparr>fileName = ''default.jpg'', name = ''Default'', type = image_media\<rparr>"
proof -
  have c: "customItems two_custom_settings =
      [\<lparr>path = ''/a.jpg'', id' = ''aaaaaaaa''\<rparr>, \<lparr>path = ''/b.mp4'', id' = ''bbbbbbbb''\<rparr>]"
    by (simp add: customItems_def two_custom_settings_def)
  note t = allMediaItems_catalog_order [of "\<lambda>u. None" catalog_manifest two_custom_settings]
  from t have "getPositionKey (allMediaItems (\<lambda>u. None) catalog_manifest two_custom_settings ! 1) =
      id' (customItems two_custom_settings ! 1)"
    by (simp add: c)
  moreover from t have "allMediaItems (\<lambda>u. None) catalog_manifest two_custom_settings ! 2 =
      builtin (2 - length (customItems two_custom_settings))
        (catalog_manifest ! (2 - length (customItems two_custom_settings)))"
    by (simp add: c catalog_manifest_def)
  ultimately show ?thesis by (simp add: c catalog_manifest_def)
qed

text \<open>
  Claim C6. Resolution by position key has no failing branch. The selected item is the
  first item whose position key is the effective media id; when there is none, the first
  builtin item named by the default file name; when there is none either, the first
  item; and \<open>None\<close> on an empty catalog. The index that is read is never negative and,
  on a non-empty catalog, below its length. The background resolver follows the same
  chain with its own default name and returns the empty url with type image on an empty
  catalog.
\<close>

theorem resolution_falls_back:
  "(currentItem up hbm d s =
      (case find (\<lambda>item. getPositionKey item = mediaId d s) (allMediaItems up hbm s) of
         Some x \<Rightarrow> Some x
       | None \<Rightarrow>
           (case find (isBuiltinNamed d) (allMediaItems up hbm s) of
              Some x \<Rightarrow> Some x
            | None \<Rightarrow> (case allMediaItems up hbm s of [] \<Rightarrow> None | x # xs \<Rightarrow> Some x)))) \<and>
   0 \<le> normalizedIndex up hbm d s \<and>
   (allMediaItems up hbm s \<noteq> [] \<longrightarrow>
      normalizedIndex up hbm d s < int (length (allMediaItems up hbm s))) \<and>
   (allMediaItems up hbm s = [] \<longrightarrow> currentItem up hbm d s = None) \<and>
   getInfusionMediaFromBackground up hbm d' imgs vids conv s bg =
      (case find (\<lambda>item. getPositionKey item =
                    (case bgMediaId bg of Some i \<Rightarrow> if trim i \<noteq> [] then i else d' | None \<Rightarrow> d'))
              (allMediaItems up hbm s) of
         Some x \<Rightarrow> (getMediaUrl imgs vids conv x, mediaTypeOf x)
       | None \<Rightarrow>
           (case find (isBuiltinNamed d') (allMediaItems up hbm s) of
              Some x \<Rightarrow> (getMediaUrl imgs vids conv x, mediaTypeOf x)
            | None \<Rightarrow>
                (case allMediaItems up hbm s of
                   [] \<Rightarrow> ([], image_media)
                 | x # xs \<Rightarrow> (getMediaUrl imgs vids conv x, mediaTypeOf x))))"
proof -
  let ?items = "allMediaItems up hbm s"
  let ?P = "\<lambda>item. getPositionKey item = mediaId d s"
  have b1: "- 1 \<le> findIndex ?P ?items \<and> findIndex ?P ?items < int (length ?items)"
    by (rule findIndex_bounds)
  have b2: "- 1 \<le> findIndex (isBuiltinNamed d) ?items \<and>
            findIndex (isBuiltinNamed d) ?items < int (length ?items)"
    by (rule findIndex_bounds)
  have cur: "currentItem up hbm d s =
      (case find ?P ?items of Some x \<Rightarrow> Some x
       | None \<Rightarrow> (case find (isBuiltinNamed d) ?items of Some x \<Rightarrow> Some x
                   | None \<Rightarrow> (case ?items of [] \<Rightarrow> None | x # xs \<Rightarrow> Some x)))"
  proof (cases "?items = []")
    case True
    then show ?thesis by (simp add: currentItem_def normalizedIndex_def nth_opt_def)
  next
    case False
    show ?thesis
    proof (cases "findIndex ?P ?items \<ge> 0")
      case True
      then show ?thesis using False nth_opt_findIndex [OF True] 
        by (simp add: currentItem_def normalizedIndex_def Let_def findIndex_find)
    next
      case nf: False
      then have f1: "find ?P ?items = None" by (simp add: findIndex_find)
      show ?thesis
      proof (cases "findIndex (isBuiltinNamed d) ?items \<ge> 0")
        case True
        then show ?thesis using False nf f1 nth_opt_findIndex [OF True]
          by (simp add: currentItem_def normalizedIndex_def Let_def findIndex_find)
      next
        case nd: False
        then have f2: "find (isBuiltinNamed d) ?items = None" by (simp add: findIndex_find)
        show ?thesis using False nf nd f1 f2
          by (simp add: currentItem_def normalizedIndex_def Let_def nth_opt_0)
      qed
    qed
  qed
  have range: "0 \<le> normalizedIndex up hbm d s \<and>
     (?items \<noteq> [] \<longrightarrow> normalizedIndex up hbm d s < int (length ?items))"
    using b1 b2 by (auto simp: normalizedIndex_def Let_def)
  have empty: "?items = [] \<longrightarrow> currentItem up hbm d s = None"
    by (simp add: cur)
  have inf: "getInfusionMediaFromBackground up hbm d' imgs vids conv s bg =
      (case find (\<lambda>item. getPositionKey item =
                    (case bgMediaId bg of Some i \<Rightarrow> if trim i \<noteq> [] then i else d' | None \<Rightarrow> d'))
              ?items of
         Some x \<Rightarrow> (getMediaUrl imgs vids conv x, mediaTypeOf x)
       | None \<Rightarrow>
           (case find (isBuiltinNamed d') ?items of
              Some x \<Rightarrow> (getMediaUrl imgs vids conv x, mediaTypeOf x)
            | None \<Rightarrow>
                (case ?items of
                   [] \<Rightarrow> ([], image_media)
                 | x # xs \<Rightarrow> (getMediaUrl imgs vids conv x, mediaTypeOf x))))"
    by (simp add: getInfusionMediaFromBackground_def Let_def nth_opt_0
        split: option.splits list.splits)
  from cur range empty inf show ?thesis by blast
qed
theorem resolution_falls_back_witness:
  "allMediaItems (\<lambda>u. None) catalog_manifest two_custom_settings \<noteq> [] \<and>
   normalizedIndex (\<lambda>u. None) catalog_manifest ''default.jpg'' two_custom_settings < 3 \<and>
   allMediaItems (\<lambda>u. None) [] empty_settings = [] \<and>
   currentItem (\<lambda>u. None) [] ''default.jpg'' empty_settings = None"
proof -
  have n: "allMediaItems (\<lambda>u. None) catalog_manifest two_custom_settings \<noteq> []"
    by (simp add: allMediaItems_def catalog_manifest_def)
  have l: "length (allMediaItems (\<lambda>u. None) catalog_manifest two_custom_settings) = 3"
    by (simp add: allMediaItems_def catalog_manifest_def customItems_def two_custom_settings_def)
  have e: "allMediaItems (\<lambda>u. None) [] empty_settings = []"
    by (simp add: allMediaItems_def customItems_def empty_settings_def)
  from resolution_falls_back [of "\<lambda>u. None" catalog_manifest "''default.jpg''" two_custom_settings] n l
  have "normalizedIndex (\<lambda>u. None) catalog_manifest ''default.jpg'' two_custom_settings < 3"
    by simp
  moreover from resolution_falls_back [of "\<lambda>u. None" "[]" "''default.jpg''" empty_settings] e
  have "currentItem (\<lambda>u. None) [] ''default.jpg'' empty_settings = None"
    by simp
  ultimately show ?thesis using n e by simp
qed

text \<open>
  Claim C9, as stated, fails: a text that is not a URL is not appended although no entry
  has it as path.
\<close>

theorem addMediaUrl_not_a_url:
  "\<not> list_ex (\<lambda>entry. path entry = trim ''banner.jpg'') (customItems empty_settings) \<and>
   addMediaUrl (\<lambda>n. ''cccccccc'') ''banner.jpg'' empty_settings = empty_settings"
  by (simp add: addMediaUrl_def empty_settings_def customItems_def isUrl_def startsWith_def trim_def is_space_def)

text \<open>
  Claim C9, amended. \<^verbatim>\<open>addMediaUrl\<close> appends exactly one entry, with the trimmed text as
  path and the generated id, when the trimmed text is not empty, starts with
  \<^verbatim>\<open>http://\<close> or \<^verbatim>\<open>https://\<close> and is the path of no custom entry; otherwise it leaves the
  settings as they are and stores nothing. \<^verbatim>\<open>addFilesFromPaths\<close>, given at least one
  path, a destination directory, and a copy that does not report a failure with a
  message, appends one entry per source path, in input order, after the existing entries,
  and does not merge equal paths.
\<close>

theorem adding_custom_media:
  "(trim url \<noteq> [] \<and> isUrl (trim url) \<and>
      \<not> list_ex (\<lambda>entry. path entry = trim url) (customItems s) \<longrightarrow>
      customItems (addMediaUrl generateShortId url s) =
        customItems s @ [\<lparr>path = trim url, id' = generateShortId 0\<rparr>]) \<and>
   (trim url = [] \<or> \<not> isUrl (trim url) \<or>
      list_ex (\<lambda>entry. path entry = trim url) (customItems s) \<longrightarrow>
      addMediaUrl generateShortId url s = s) \<and>
   (sourcePaths \<noteq> [] \<and> destDir \<noteq> [] \<and> (success \<or> err = None \<or> err = Some []) \<longrightarrow>
      (\<exists>s'. addFilesFromPaths generateShortId (Some destDir) (Resolves ()) (Resolves (success, err))
               sourcePaths s = Returned s' \<and>
            customItems s' =
              customItems s @
              map (\<lambda>(n, src). \<lparr>path = destinationPath destDir src, id' = generateShortId n\<rparr>)
                (enumerate 0 sourcePaths)))"
  by (auto simp: addMediaUrl_def addFilesFromPaths_def Let_def customItems_def
      set_homeBannerCustomMedia_def set_homeBannerMediaId_def set_homeBannerIndex_def)

theorem adding_custom_media_witness:
  "customItems (addMediaUrl (\<lambda>n. ''cccccccc'') '' https://x.org/v.webm '' empty_settings) =
     [\<lparr>path = ''https://x.org/v.webm'', id' = ''cccccccc''\<rparr>] \<and>
   addMediaUrl (\<lambda>n. ''cccccccc'') '' https://x.org/v.webm '' url_settings = url_settings \<and>
   (\<exists>s'. addFilesFromPaths (\<lambda>n. if n = 0 then ''cccccccc'' else ''dddddddd'') (Some ''/media'')
            (Resolves ()) (Resolves (True, None)) [''/x/v.webm'', ''/y/v.webm''] url_settings = Returned s' \<and>
         customItems s' =
           [\<lparr>path = ''https://x.org/v.webm'', id' = ''aaaaaaaa''\<rparr>,
            \<lparr>path = ''/media/v.webm'', id' = ''cccccccc''\<rparr>,
            \<lparr>path = ''/media/v.webm'', id' = ''dddddddd''\<rparr>])"
proof -
  have t: "trim '' https://x.org/v.webm '' = ''https://x.org/v.webm''"
    by code_simp
  have u: "isUrl ''https://x.org/v.webm''"
    by code_simp
  have c0: "customItems empty_settings = []"
    by (simp add: customItems_def empty_settings_def)
  have c1: "customItems url_settings = [\<lparr>path = ''https://x.org/v.webm'', id' = ''aaaaaaaa''\<rparr>]"
    by (simp add: customItems_def url_settings_def)
  have d: "destinationPath ''/media'' ''/x/v.webm'' = ''/media/v.webm''"
          "destinationPath ''/media'' ''/y/v.webm'' = ''/media/v.webm''"
    by code_simp+
  from adding_custom_media [of "'' https://x.org/v.webm ''" empty_settings "\<lambda>n. ''cccccccc''"]
  have a: "customItems (addMediaUrl (\<lambda>n. ''cccccccc'') '' https://x.org/v.webm '' empty_settings) =
     [\<lparr>path = ''https://x.org/v.webm'', id' = ''cccccccc''\<rparr>]"
    by (simp add: t u c0)
  from adding_custom_media [of "'' https://x.org/v.webm ''" url_settings "\<lambda>n. ''cccccccc''"]
  have b: "addMediaUrl (\<lambda>n. ''cccccccc'') '' https://x.org/v.webm '' url_settings = url_settings"
    by (simp add: t u c1)
  from adding_custom_media [of _ url_settings "\<lambda>n. if n = 0 then ''cccccccc'' else ''dddddddd''"
      "[''/x/v.webm'', ''/y/v.webm'']" "''/media''" True None]
  have c: "\<exists>s'. addFilesFromPaths (\<lambda>n. if n = 0 then ''cccccccc'' else ''dddddddd'') (Some ''/media'')
            (Resolves ()) (Resolves (True, None)) [''/x/v.webm'', ''/y/v.webm''] url_settings = Returned s' \<and>
         customItems s' =
           [\<lparr>path = ''https://x.org/v.webm'', id' = ''aaaaaaaa''\<rparr>,
            \<lparr>path = ''/media/v.webm'', id' = ''cccccccc''\<rparr>,
            \<lparr>path = ''/media/v.webm'', id' = ''dddddddd''\<rparr>]"
    by (simp add: c1 d enumerate_eq_zip upt_rec)
  from a b c show ?thesis by blast
qed

text \<open>
  After the write of the filtered list, no catalog item has the removed path: the index
  \<^verbatim>\<open>removeIdx\<close> that \<^verbatim>\<open>removeCustomMedia\<close> looks up is always \<open>-1\<close>.
\<close>

lemma findIndex_none: "(\<forall>x \<in> set xs. \<not> P x) \<Longrightarrow> findIndex P xs = - 1"
  by (induction xs) auto

lemma allMediaItems_item:
  assumes "item \<in> set (allMediaItems up hbm s)"
  shows "(\<exists>n e f t. e \<in> set (customItems s) \<and> item = custom n (path e) (id' e) f t) \<or>
         (\<exists>n d. d \<in> set hbm \<and> item = builtin n d)"
  using assms by (auto simp: allMediaItems_def in_set_enumerate_eq Let_def) (metis nth_mem)

lemma removeCustomMedia_removeIdx:
  assumes "customItems s2 = filter (\<lambda>entry. path entry \<noteq> q) cs"
  shows "findIndex (isCustomAt q) (allMediaItems up hbm s2) = - 1"
proof (rule findIndex_none, rule ballI)
  fix item assume "item \<in> set (allMediaItems up hbm s2)"
  from allMediaItems_item [OF this] show "\<not> isCustomAt q item"
    by (auto simp: assms)
qed

text \<open>
  What the removal does to the selection: on a catalog that is not empty after the
  removal, the new selection is the position that \<^verbatim>\<open>normalizedIndex\<close> gives once the
  filtered list is stored, and the stored media id is the position key of the item at
  that position.
\<close>

lemma findIndex_negative: "findIndex P xs < 0 \<longleftrightarrow> (\<forall>x \<in> set xs. \<not> P x)"
proof (induction xs)
  case Nil
  then show ?case by simp
next
  case (Cons x xs)
  have "- 1 \<le> findIndex P xs" using findIndex_bounds [of P xs] by simp
  with Cons show ?case by auto
qed

lemma normalizedIndex_in_range:
  assumes "allMediaItems up hbm s \<noteq> []"
  shows "0 \<le> normalizedIndex up hbm d s \<and>
         normalizedIndex up hbm d s < int (length (allMediaItems up hbm s))"
  using assms findIndex_bounds [of "\<lambda>item. getPositionKey item = mediaId d s" "allMediaItems up hbm s"]
    findIndex_bounds [of "isBuiltinNamed d" "allMediaItems up hbm s"]
  by (auto simp: normalizedIndex_def Let_def)

lemma removeCustomMedia_selection:
  assumes ne: "allMediaItems up hbm
                 (set_homeBannerCustomMedia s (filter (\<lambda>entry. path entry \<noteq> q) (customItems s))) \<noteq> []"
  shows "homeBannerIndex (removeCustomMedia up hbm d q s) =
           normalizedIndex up hbm d
             (set_homeBannerCustomMedia s (filter (\<lambda>entry. path entry \<noteq> q) (customItems s))) \<and>
         homeBannerMediaId (removeCustomMedia up hbm d q s) =
           Some (getPositionKey
                   (allMediaItems up hbm
                      (set_homeBannerCustomMedia s (filter (\<lambda>entry. path entry \<noteq> q) (customItems s))) !
                    nat (normalizedIndex up hbm d
                      (set_homeBannerCustomMedia s (filter (\<lambda>entry. path entry \<noteq> q) (customItems s)))))) \<and>
         customItems (removeCustomMedia up hbm d q s) = filter (\<lambda>entry. path entry \<noteq> q) (customItems s)"
proof -
  define filtered where "filtered = filter (\<lambda>entry. path entry \<noteq> q) (customItems s)"
  define s1 where "s1 = set_homeBannerCustomMedia s filtered"
  define s2 where "s2 = (case find (\<lambda>entry. path entry = q) (customItems s) of
                  None \<Rightarrow> s1
                | Some e \<Rightarrow>
                    (case homeBannerPositions s1 of
                       None \<Rightarrow> s1
                     | Some positions \<Rightarrow>
                         if positions (id' e) \<noteq> None \<or> id' e \<in> set object_prototype_names
                         then set_homeBannerPositions s1 (positions(id' e := None))
                         else s1))"
  define items where "items = allMediaItems up hbm s2"
  define f where "f = normalizedIndex up hbm d s2"
  have cs2: "customItems s2 = filtered"
    by (simp add: s2_def s1_def customItems_def set_homeBannerCustomMedia_def
        set_homeBannerPositions_def split: option.splits)
  have cs1: "customItems s1 = filtered"
    by (simp add: s1_def customItems_def set_homeBannerCustomMedia_def)
  have items1: "allMediaItems up hbm s1 = items"
    by (simp add: items_def allMediaItems_def cs2 cs1)
  have K2: "mediaId d s2 = mediaId d s1"
    by (simp add: s2_def s1_def mediaId_def set_homeBannerCustomMedia_def
        set_homeBannerPositions_def split: option.splits)
  have f1: "normalizedIndex up hbm d s1 = f"
    by (simp add: f_def normalizedIndex_def items1 items_def [symmetric] K2)
  from ne have ne': "items \<noteq> []" by (simp add: items1 [symmetric] s1_def filtered_def)
  from normalizedIndex_in_range [of up hbm s2 d] ne'
  have f0: "0 \<le> f" and fl: "f < int (length items)"
    by (simp_all add: f_def items_def)
  have len: "int (length items) = int (length filtered) + int (length hbm)"
    by (simp add: items_def allMediaItems_length cs2)
  have rem: "findIndex (isCustomAt q) items = - 1"
    unfolding items_def by (rule removeCustomMedia_removeIdx [OF cs2 [unfolded filtered_def]])
  have resolved:
    "(if f < int (length filtered)
      then (case nth_opt filtered f of Some e \<Rightarrow> id' e | None \<Rightarrow> d)
      else (case nth_opt hbm (f - int (length filtered)) of Some m \<Rightarrow> fileName m | None \<Rightarrow> d)) =
     getPositionKey (items ! nat f)"
  proof (cases "f < int (length filtered)")
    case True
    with f0 have n: "nat f < length (customItems s2)" by (simp add: cs2)
    have "getPositionKey (items ! nat f) = id' (filtered ! nat f)"
      unfolding items_def allMediaItems_custom [OF n] by (simp add: cs2)
    with True f0 show ?thesis by (simp add: nth_opt_def)
  next
    case False
    with f0 fl len have n: "length (customItems s2) \<le> nat f"
        "nat f < length (customItems s2) + length hbm"
      by (simp_all add: cs2)
    have "getPositionKey (items ! nat f) = fileName (hbm ! (nat f - length filtered))"
      unfolding items_def allMediaItems_builtin [OF n] by (simp add: cs2)
    moreover have "nat (f - int (length filtered)) = nat f - length filtered"
      using False f0 by simp
    ultimately show ?thesis using False f0 fl len by (simp add: nth_opt_def)
  qed
  have after: "0 < int (length filtered) + int (length hbm)"
    using f0 fl len by simp
  have clamp: "min (max 0 f) (int (length filtered) + int (length hbm) - 1) = f"
    using f0 fl len by simp
  have r: "removeCustomMedia up hbm d q s =
      set_homeBannerIndex (set_homeBannerMediaId s2 (getPositionKey (items ! nat f))) f"
    unfolding removeCustomMedia_def Let_def filtered_def [symmetric] s1_def [symmetric]
      s2_def [symmetric] f_def [symmetric] items_def [symmetric] rem
    using after clamp resolved by (auto split: if_splits)
  have "customItems (set_homeBannerIndex (set_homeBannerMediaId s2 (getPositionKey (items ! nat f))) f) = filtered"
    using cs2 by (simp add: customItems_def set_homeBannerIndex_def set_homeBannerMediaId_def)
  then show ?thesis
    unfolding r filtered_def [symmetric] s1_def [symmetric] f1 items1
    by (simp add: set_homeBannerIndex_def set_homeBannerMediaId_def)
qed

text \<open>
  Claim C3, as stated, fails at two catalogs of two custom entries and one builtin.
  In the first the second custom entry is selected (position 1) and removed: the claim
  asks for position 0 and the id of the first custom entry, the code stores position 1
  and the default builtin file name. In the second both custom entries have the path
  that is removed and the builtin entry is selected (position 2 of 3): the claim asks
  for position 1, the code stores position 0, the only one left.
\<close>

theorem removeCustomMedia_selection_not_decremented:
  "normalizedIndex (\<lambda>u. None) catalog_manifest ''default.jpg'' two_custom_settings = 1 \<and>
   findIndex (isCustomAt ''/b.mp4'') (allMediaItems (\<lambda>u. None) catalog_manifest two_custom_settings) = 1 \<and>
   homeBannerIndex (removeCustomMedia (\<lambda>u. None) catalog_manifest ''default.jpg'' ''/b.mp4''
                      two_custom_settings) = 1 \<and>
   homeBannerMediaId (removeCustomMedia (\<lambda>u. None) catalog_manifest ''default.jpg'' ''/b.mp4''
                        two_custom_settings) = Some ''default.jpg'' \<and>
   normalizedIndex (\<lambda>u. None) catalog_manifest ''default.jpg'' duplicate_path_settings = 2 \<and>
   findIndex (isCustomAt ''/a.jpg'') (allMediaItems (\<lambda>u. None) catalog_manifest duplicate_path_settings) = 0 \<and>
   length (allMediaItems (\<lambda>u. None) catalog_manifest duplicate_path_settings) = 3 \<and>
   homeBannerIndex (removeCustomMedia (\<lambda>u. None) catalog_manifest ''default.jpg'' ''/a.jpg''
                      duplicate_path_settings) = 0 \<and>
   homeBannerMediaId (removeCustomMedia (\<lambda>u. None) catalog_manifest ''default.jpg'' ''/a.jpg''
                        duplicate_path_settings) = Some ''default.jpg''"
  by code_simp

lemma findIndex_map: "findIndex P (map f xs) = findIndex (\<lambda>x. P (f x)) xs"
  by (induction xs) auto

lemma allMediaItems_keys:
  "map getPositionKey (allMediaItems up hbm s) = map id' (customItems s) @ map fileName hbm"
  by (auto simp: allMediaItems_def Let_def enumerate_eq_zip map_zip_map2 [symmetric]
      intro!: nth_equalityI)

lemma findIndex_remove_before:
  "j < length xs \<Longrightarrow> int j < findIndex P xs \<Longrightarrow>
   findIndex P (take j xs @ drop (Suc j) xs) = findIndex P xs - 1"
proof (induction xs arbitrary: j)
  case Nil
  then show ?case by simp
next
  case (Cons x xs)
  have b: "- 1 \<le> findIndex P xs" using findIndex_bounds [of P xs] by simp
  from Cons.prems(2) have nx: "\<not> P x" by (auto split: if_splits)
  with Cons.prems(2) b have fx: "findIndex P (x # xs) = findIndex P xs + 1" "0 \<le> findIndex P xs"
    by (auto split: if_splits)
  show ?case
  proof (cases j)
    case 0
    then show ?thesis using fx by simp
  next
    case (Suc i)
    with Cons.prems fx have "i < length xs" "int i < findIndex P xs" by auto
    from Cons.IH [OF this] have ih: "findIndex P (take i xs @ drop (Suc i) xs) = findIndex P xs - 1" .
    have "0 \<le> findIndex P xs - 1" using \<open>int i < findIndex P xs\<close> by simp
    then show ?thesis using Suc nx fx ih by simp
  qed
qed

lemma filter_single:
  assumes "j < length xs" "\<not> P (xs ! j)" "\<forall>i < length xs. i \<noteq> j \<longrightarrow> P (xs ! i)"
  shows "filter P xs = take j xs @ drop (Suc j) xs"
proof -
  have xs: "xs = take j xs @ xs ! j # drop (Suc j) xs"
    using assms(1) by (simp add: id_take_nth_drop)
  have t: "\<forall>x \<in> set (take j xs). P x"
    using assms(1,3) by (auto simp: in_set_conv_nth)
  have d: "\<forall>x \<in> set (drop (Suc j) xs). P x"
  proof
    fix x assume "x \<in> set (drop (Suc j) xs)"
    then obtain i where "i < length xs - Suc j" "x = xs ! (Suc j + i)"
      by (auto simp: in_set_conv_nth)
    with assms(3) show "P x" by simp
  qed
  have "filter P xs = filter P (take j xs) @ filter P (xs ! j # drop (Suc j) xs)"
    by (subst xs) (simp only: filter_append)
  with t d assms(2) show ?thesis by simp
qed

lemma find_single:
  assumes "j < length xs" "P (xs ! j)" "\<forall>i < length xs. i \<noteq> j \<longrightarrow> \<not> P (xs ! i)"
  shows "find P xs = Some (xs ! j)"
proof -
  have "\<forall>i < j. \<not> P (xs ! i)" using assms(1,3) by auto
  with assms(1,2) show ?thesis by (auto simp: find_Some_iff)
qed


lemma removeCustomMedia_positions:
  "homeBannerPositions (removeCustomMedia up hbm d q s) =
     (case find (\<lambda>entry. path entry = q) (customItems s) of
        None \<Rightarrow> homeBannerPositions s
      | Some e \<Rightarrow> map_option (\<lambda>m. m(id' e := None)) (homeBannerPositions s))"
proof -
  define filtered where "filtered = filter (\<lambda>entry. path entry \<noteq> q) (customItems s)"
  define s1 where "s1 = set_homeBannerCustomMedia s filtered"
  define s2 where "s2 = (case find (\<lambda>entry. path entry = q) (customItems s) of
                  None \<Rightarrow> s1
                | Some e \<Rightarrow>
                    (case homeBannerPositions s1 of
                       None \<Rightarrow> s1
                     | Some positions \<Rightarrow>
                         if positions (id' e) \<noteq> None \<or> id' e \<in> set object_prototype_names
                         then set_homeBannerPositions s1 (positions(id' e := None))
                         else s1))"
  have "\<exists>m i. removeCustomMedia up hbm d q s = set_homeBannerIndex (set_homeBannerMediaId s2 m) i"
    unfolding removeCustomMedia_def Let_def filtered_def [symmetric] s1_def [symmetric]
      s2_def [symmetric] by blast
  then obtain m i where r: "removeCustomMedia up hbm d q s = set_homeBannerIndex (set_homeBannerMediaId s2 m) i"
    by blast
  have p1: "homeBannerPositions s1 = homeBannerPositions s"
    by (simp add: s1_def set_homeBannerCustomMedia_def)
  have "homeBannerPositions s2 =
     (case find (\<lambda>entry. path entry = q) (customItems s) of
        None \<Rightarrow> homeBannerPositions s
      | Some e \<Rightarrow> map_option (\<lambda>m. m(id' e := None)) (homeBannerPositions s))"
    unfolding s2_def by (auto simp: p1 set_homeBannerPositions_def split: option.splits)
  then show ?thesis
    by (simp add: r set_homeBannerIndex_def set_homeBannerMediaId_def)
qed

lemma allMediaItems_named:
  "map (isBuiltinNamed d) (allMediaItems up hbm s) =
     replicate (length (customItems s)) False @ map (\<lambda>m. fileName m = d) hbm"
  by (auto simp: allMediaItems_def Let_def enumerate_eq_zip nth_append intro!: nth_equalityI)

lemma remove_nth_after: "j < k \<Longrightarrow> k < length xs \<Longrightarrow> (take j xs @ drop (Suc j) xs) ! (k - 1) = xs ! k"
  by (auto simp: nth_append min_def)

text \<open>
  Claim C3, amended. Let exactly one custom entry, at position \<open>j\<close>, have the path that
  is removed, and let the selection before the call, \<^verbatim>\<open>normalizedIndex\<close>, be at position
  \<open>k\<close> with \<open>j < k\<close>. Then the call leaves the selection at position \<open>k - 1\<close>, which lies
  in \<open>[0, n - 2]\<close> for the catalog size \<open>n\<close>; it writes as \<^verbatim>\<open>homeBannerMediaId\<close> the
  position key of the item at that position of the new catalog, which is the key of the
  item selected before; it removes the entry at \<open>j\<close> and no other; and it deletes the
  saved position record of the removed entry from \<^verbatim>\<open>homeBannerPositions\<close>.
\<close>

theorem removeCustomMedia_before_selection:
  assumes j: "j < length (customItems s)"
    and q: "path (customItems s ! j) = q"
    and single: "\<forall>i < length (customItems s). i \<noteq> j \<longrightarrow> path (customItems s ! i) \<noteq> q"
    and k: "normalizedIndex up hbm d s = k"
    and jk: "int j < k"
  shows "homeBannerIndex (removeCustomMedia up hbm d q s) = k - 1 \<and>
     0 \<le> k - 1 \<and> k - 1 \<le> int (length (allMediaItems up hbm s)) - 2 \<and>
     homeBannerMediaId (removeCustomMedia up hbm d q s) =
       Some (getPositionKey (allMediaItems up hbm (removeCustomMedia up hbm d q s) ! nat (k - 1))) \<and>
     getPositionKey (allMediaItems up hbm (removeCustomMedia up hbm d q s) ! nat (k - 1)) =
       getPositionKey (allMediaItems up hbm s ! nat k) \<and>
     customItems (removeCustomMedia up hbm d q s) =
       take j (customItems s) @ drop (Suc j) (customItems s) \<and>
     homeBannerPositions (removeCustomMedia up hbm d q s) =
       map_option (\<lambda>m. m(id' (customItems s ! j) := None)) (homeBannerPositions s)"
proof -
  let ?cs = "customItems s"
  let ?K = "mediaId d s"
  let ?P = "\<lambda>item. getPositionKey item = ?K"
  let ?s' = "removeCustomMedia up hbm d q s"
  let ?s1 = "set_homeBannerCustomMedia s (filter (\<lambda>entry. path entry \<noteq> q) ?cs)"
  let ?keys = "map id' ?cs @ map fileName hbm"
  let ?named = "replicate (length ?cs) False @ map (\<lambda>m. fileName m = d) hbm"
  have filtered: "filter (\<lambda>entry. path entry \<noteq> q) ?cs = take j ?cs @ drop (Suc j) ?cs"
    using j q single by (intro filter_single) auto
  have cs1: "customItems ?s1 = take j ?cs @ drop (Suc j) ?cs"
    by (simp add: customItems_def set_homeBannerCustomMedia_def filtered [unfolded customItems_def])
  have K1: "mediaId d ?s1 = ?K"
    by (simp add: mediaId_def set_homeBannerCustomMedia_def)
  have len: "length (allMediaItems up hbm s) = length ?cs + length hbm"
    by (simp add: allMediaItems_length)
  have ne: "allMediaItems up hbm s \<noteq> []"
    using j len by auto
  have bound: "k < int (length (allMediaItems up hbm s))"
    using normalizedIndex_in_range [OF ne, of d] k by simp
  have jl: "j < length ?keys" "j < length ?named" using j by simp_all
  have keys0: "map getPositionKey (allMediaItems up hbm s) = ?keys"
    by (rule allMediaItems_keys)
  have keys1: "map getPositionKey (allMediaItems up hbm ?s1) = take j ?keys @ drop (Suc j) ?keys"
    using j by (simp add: allMediaItems_keys cs1 take_map drop_map)
  have named1: "map (isBuiltinNamed d) (allMediaItems up hbm ?s1) = take j ?named @ drop (Suc j) ?named"
    using j by (simp add: allMediaItems_named cs1 min_def) (simp add: replicate_add [symmetric])
  have fk: "findIndex ?P (allMediaItems up hbm s) = findIndex (\<lambda>x. x = ?K) ?keys"
    using findIndex_map [of "\<lambda>x. x = ?K" getPositionKey "allMediaItems up hbm s"]
    by (simp only: keys0)
  have fk1: "findIndex ?P (allMediaItems up hbm ?s1) =
      findIndex (\<lambda>x. x = ?K) (take j ?keys @ drop (Suc j) ?keys)"
    using findIndex_map [of "\<lambda>x. x = ?K" getPositionKey "allMediaItems up hbm ?s1"]
    by (simp only: keys1)
  have fn: "findIndex (isBuiltinNamed d) (allMediaItems up hbm s) = findIndex (\<lambda>b. b) ?named"
    using findIndex_map [of "\<lambda>b. b" "isBuiltinNamed d" "allMediaItems up hbm s"]
    by (simp only: allMediaItems_named)
  have fn1: "findIndex (isBuiltinNamed d) (allMediaItems up hbm ?s1) =
      findIndex (\<lambda>b. b) (take j ?named @ drop (Suc j) ?named)"
    using findIndex_map [of "\<lambda>b. b" "isBuiltinNamed d" "allMediaItems up hbm ?s1"]
    by (simp only: named1)
  have ne1: "allMediaItems up hbm ?s1 \<noteq> []"
  proof -
    have "length (allMediaItems up hbm ?s1) = length ?cs - 1 + length hbm"
      using j by (simp add: allMediaItems_length cs1)
    moreover have "2 \<le> length ?cs + length hbm" using jk bound len by simp
    ultimately show ?thesis using j by auto
  qed
  have new: "normalizedIndex up hbm d ?s1 = k - 1"
  proof (cases "0 \<le> findIndex ?P (allMediaItems up hbm s)")
    case True
    with k ne have e: "findIndex (\<lambda>x. x = ?K) ?keys = k"
      by (simp add: normalizedIndex_def Let_def fk)
    have "findIndex (\<lambda>x. x = ?K) (take j ?keys @ drop (Suc j) ?keys) = k - 1"
      using findIndex_remove_before [OF jl(1), of "\<lambda>x. x = ?K"] jk e by simp
    then show ?thesis using ne1 jk
      by (simp add: normalizedIndex_def Let_def K1 fk1)
  next
    case False
    then have none: "\<forall>x \<in> set ?keys. x \<noteq> ?K"
      using findIndex_negative [of "\<lambda>x. x = ?K" ?keys] by (simp add: fk)
    have "set (take j ?keys @ drop (Suc j) ?keys) \<subseteq> set ?keys"
      using set_take_subset [of j ?keys] set_drop_subset [of "Suc j" ?keys] by auto
    with none have "\<forall>x \<in> set (take j ?keys @ drop (Suc j) ?keys). x \<noteq> ?K" by blast
    then have none1: "findIndex (\<lambda>x. x = ?K) (take j ?keys @ drop (Suc j) ?keys) < 0"
      using findIndex_negative [of "\<lambda>x. x = ?K" "take j ?keys @ drop (Suc j) ?keys"] by simp
    from False k ne jk have e: "findIndex (\<lambda>b. b) ?named = k"
      by (auto simp: normalizedIndex_def Let_def fn split: if_splits)
    have "findIndex (\<lambda>b. b) (take j ?named @ drop (Suc j) ?named) = k - 1"
      using findIndex_remove_before [OF jl(2), of "\<lambda>b. b"] jk e by simp
    then show ?thesis using ne1 jk none1
      by (simp add: normalizedIndex_def Let_def K1 fk1 fn1)
  qed
  note sel = removeCustomMedia_selection [OF ne1, of d]
  have k1: "0 \<le> k - 1" using jk by simp
  have cs': "customItems ?s' = take j ?cs @ drop (Suc j) ?cs"
    using sel by (simp add: filtered)
  have items': "allMediaItems up hbm ?s' = allMediaItems up hbm ?s1"
    by (simp add: allMediaItems_def cs' cs1)
  have idx: "homeBannerIndex ?s' = k - 1"
    using sel by (simp add: new)
  have mid: "homeBannerMediaId ?s' = Some (getPositionKey (allMediaItems up hbm ?s' ! nat (k - 1)))"
    using sel by (simp add: new items')
  have same: "getPositionKey (allMediaItems up hbm ?s' ! nat (k - 1)) =
      getPositionKey (allMediaItems up hbm s ! nat k)"
  proof -
    have kl: "nat k < length ?keys" using bound jk by (simp add: len)
    have jk': "j < nat k" using jk by simp
    have nk: "nat (k - 1) = nat k - 1" using jk by simp
    have l1: "nat (k - 1) < length (allMediaItems up hbm ?s1)"
      using bound jk j by (simp add: allMediaItems_length cs1 len)
    have "getPositionKey (allMediaItems up hbm ?s1 ! nat (k - 1)) =
        map getPositionKey (allMediaItems up hbm ?s1) ! nat (k - 1)"
      using l1 by simp
    also have "\<dots> = (take j ?keys @ drop (Suc j) ?keys) ! (nat k - 1)"
      by (simp only: keys1 nk)
    also have "\<dots> = ?keys ! nat k" by (rule remove_nth_after [OF jk' kl])
    also have "\<dots> = map getPositionKey (allMediaItems up hbm s) ! nat k" by (simp only: keys0)
    also have "\<dots> = getPositionKey (allMediaItems up hbm s ! nat k)"
      using bound jk by simp
    finally show ?thesis by (simp add: items')
  qed
  have removed: "find (\<lambda>entry. path entry = q) ?cs = Some (?cs ! j)"
    using j q single by (intro find_single) auto
  have pos: "homeBannerPositions ?s' =
      map_option (\<lambda>m. m(id' (?cs ! j) := None)) (homeBannerPositions s)"
    by (simp add: removeCustomMedia_positions removed)
  have up: "k - 1 \<le> int (length (allMediaItems up hbm s)) - 2" using bound by simp
  show ?thesis
    using idx k1 up mid same cs' pos by (intro conjI)
qed

theorem removeCustomMedia_before_selection_witness:
  "homeBannerIndex (removeCustomMedia (\<lambda>u. None) catalog_manifest ''default.jpg'' ''/b.mp4''
                      builtin_selected_settings) = 1 \<and>
   homeBannerMediaId (removeCustomMedia (\<lambda>u. None) catalog_manifest ''default.jpg'' ''/b.mp4''
                        builtin_selected_settings) = Some ''default.jpg'' \<and>
   customItems (removeCustomMedia (\<lambda>u. None) catalog_manifest ''default.jpg'' ''/b.mp4''
                  builtin_selected_settings) = [\<lparr>path = ''/a.jpg'', id' = ''aaaaaaaa''\<rparr>] \<and>
   homeBannerPositions (removeCustomMedia (\<lambda>u. None) catalog_manifest ''default.jpg'' ''/b.mp4''
                          builtin_selected_settings) =
     Some ([''bbbbbbbb'' \<mapsto> \<lparr>positionX = 10, positionY = 20, zoom = 100\<rparr>](''bbbbbbbb'' := None)) \<and>
   normalizedIndex (\<lambda>u. None) catalog_manifest ''default.jpg'' stale_id_settings = 2 \<and>
   homeBannerIndex (removeCustomMedia (\<lambda>u. None) catalog_manifest ''default.jpg'' ''/a.jpg''
                      stale_id_settings) = 1 \<and>
   homeBannerMediaId (removeCustomMedia (\<lambda>u. None) catalog_manifest ''default.jpg'' ''/a.jpg''
                        stale_id_settings) = Some ''default.jpg'' \<and>
   customItems (removeCustomMedia (\<lambda>u. None) catalog_manifest ''default.jpg'' ''/a.jpg''
                  stale_id_settings) = [\<lparr>path = ''/b.mp4'', id' = ''bbbbbbbb''\<rparr>] \<and>
   homeBannerPositions (removeCustomMedia (\<lambda>u. None) catalog_manifest ''default.jpg'' ''/a.jpg''
                          stale_id_settings) =
     Some ([''aaaaaaaa'' \<mapsto> \<lparr>positionX = 10, positionY = 20, zoom = 100\<rparr>](''aaaaaaaa'' := None)) \<and>
   normalizedIndex (\<lambda>u. None) catalog_manifest ''default.jpg'' two_custom_settings = 1 \<and>
   homeBannerIndex (removeCustomMedia (\<lambda>u. None) catalog_manifest ''default.jpg'' ''/a.jpg''
                      two_custom_settings) = 0 \<and>
   homeBannerMediaId (removeCustomMedia (\<lambda>u. None) catalog_manifest ''default.jpg'' ''/a.jpg''
                        two_custom_settings) = Some ''bbbbbbbb''"
proof -
  let ?a = "\<lparr>path = ''/a.jpg'', id' = ''aaaaaaaa''\<rparr>"
  let ?b = "\<lparr>path = ''/b.mp4'', id' = ''bbbbbbbb''\<rparr>"
  have cs: "customItems builtin_selected_settings = [?a, ?b]"
      "customItems stale_id_settings = [?a, ?b]" "customItems two_custom_settings = [?a, ?b]"
    by (simp_all add: customItems_def builtin_selected_settings_def stale_id_settings_def
        two_custom_settings_def)
  have p: "homeBannerPositions builtin_selected_settings =
      Some [''bbbbbbbb'' \<mapsto> \<lparr>positionX = 10, positionY = 20, zoom = 100\<rparr>]"
      "homeBannerPositions stale_id_settings =
      Some [''aaaaaaaa'' \<mapsto> \<lparr>positionX = 10, positionY = 20, zoom = 100\<rparr>]"
    by (simp_all add: builtin_selected_settings_def stale_id_settings_def)
  have k: "normalizedIndex (\<lambda>u. None) catalog_manifest ''default.jpg'' builtin_selected_settings = 2"
      "normalizedIndex (\<lambda>u. None) catalog_manifest ''default.jpg'' stale_id_settings = 2"
      "normalizedIndex (\<lambda>u. None) catalog_manifest ''default.jpg'' two_custom_settings = 1"
    by code_simp+
  have key: "getPositionKey (allMediaItems (\<lambda>u. None) catalog_manifest builtin_selected_settings ! 2) =
      ''default.jpg''"
      "getPositionKey (allMediaItems (\<lambda>u. None) catalog_manifest stale_id_settings ! 2) =
      ''default.jpg''"
      "getPositionKey (allMediaItems (\<lambda>u. None) catalog_manifest two_custom_settings ! Suc 0) =
      ''bbbbbbbb''"
    by code_simp+
  have single1: "\<forall>i < length [?a, ?b]. i \<noteq> 1 \<longrightarrow> path ([?a, ?b] ! i) \<noteq> ''/b.mp4''"
    by (simp add: less_Suc_eq numeral_2_eq_2)
  have single0: "\<forall>i < length [?a, ?b]. i \<noteq> 0 \<longrightarrow> path ([?a, ?b] ! i) \<noteq> ''/a.jpg''"
    by (simp add: less_Suc_eq numeral_2_eq_2)
  have one: "homeBannerIndex (removeCustomMedia (\<lambda>u. None) catalog_manifest ''default.jpg'' ''/b.mp4''
                      builtin_selected_settings) = 1 \<and>
   homeBannerMediaId (removeCustomMedia (\<lambda>u. None) catalog_manifest ''default.jpg'' ''/b.mp4''
                        builtin_selected_settings) = Some ''default.jpg'' \<and>
   customItems (removeCustomMedia (\<lambda>u. None) catalog_manifest ''default.jpg'' ''/b.mp4''
                  builtin_selected_settings) = [?a] \<and>
   homeBannerPositions (removeCustomMedia (\<lambda>u. None) catalog_manifest ''default.jpg'' ''/b.mp4''
                          builtin_selected_settings) =
     Some ([''bbbbbbbb'' \<mapsto> \<lparr>positionX = 10, positionY = 20, zoom = 100\<rparr>](''bbbbbbbb'' := None))"
    using removeCustomMedia_before_selection [of 1 builtin_selected_settings "''/b.mp4''"
        "\<lambda>u. None" catalog_manifest "''default.jpg''" 2, unfolded cs, OF _ _ single1 k(1)]
    by (simp add: p key [unfolded cs])
  have two: "homeBannerIndex (removeCustomMedia (\<lambda>u. None) catalog_manifest ''default.jpg'' ''/a.jpg''
                      stale_id_settings) = 1 \<and>
   homeBannerMediaId (removeCustomMedia (\<lambda>u. None) catalog_manifest ''default.jpg'' ''/a.jpg''
                        stale_id_settings) = Some ''default.jpg'' \<and>
   customItems (removeCustomMedia (\<lambda>u. None) catalog_manifest ''default.jpg'' ''/a.jpg''
                  stale_id_settings) = [?b] \<and>
   homeBannerPositions (removeCustomMedia (\<lambda>u. None) catalog_manifest ''default.jpg'' ''/a.jpg''
                          stale_id_settings) =
     Some ([''aaaaaaaa'' \<mapsto> \<lparr>positionX = 10, positionY = 20, zoom = 100\<rparr>](''aaaaaaaa'' := None))"
    using removeCustomMedia_before_selection [of 0 stale_id_settings "''/a.jpg''"
        "\<lambda>u. None" catalog_manifest "''default.jpg''" 2, unfolded cs, OF _ _ single0 k(2)]
    by (simp add: p key)
  have three: "homeBannerIndex (removeCustomMedia (\<lambda>u. None) catalog_manifest ''default.jpg'' ''/a.jpg''
                      two_custom_settings) = 0 \<and>
   homeBannerMediaId (removeCustomMedia (\<lambda>u. None) catalog_manifest ''default.jpg'' ''/a.jpg''
                        two_custom_settings) = Some ''bbbbbbbb''"
    using removeCustomMedia_before_selection [of 0 two_custom_settings "''/a.jpg''"
        "\<lambda>u. None" catalog_manifest "''default.jpg''" 1, unfolded cs, OF _ _ single0 k(3)]
    by (simp add: key)
  from one two three k(2,3) show ?thesis by (intro conjI) simp_all
qed


section \<open>Properties of the later migration steps\<close>

subsection \<open>Objects\<close>

lemma map_of_replace_prop:
  "map_of (replace_prop k v ps) k' =
     (if k' = k \<and> k \<in> fst ` set ps then Some v else map_of ps k')"
  by (induction k v ps rule: replace_prop.induct) (auto simp: image_iff, metis fst_conv)

lemma map_of_insert_prop:
  "k \<notin> fst ` set ps \<Longrightarrow> map_of (insert_prop k v ps) k' = (if k' = k then Some v else map_of ps k')"
  by (induction k v ps rule: insert_prop.induct) (auto simp: image_iff)

lemma obj_get_obj_set:
  "obj_get (obj_set ps k v) k' = (if k' = k then Some v else obj_get ps k')"
  by (simp add: obj_get_def obj_set_def map_of_replace_prop map_of_insert_prop)

lemma keys_replace_prop: "k \<in> fst ` set ps \<Longrightarrow> fst ` set (replace_prop k v ps) = fst ` set ps"
  by (induction k v ps rule: replace_prop.induct) (auto simp: image_iff)

lemma set_insert_prop: "set (insert_prop k v ps) = insert (k, v) (set ps)"
  by (induction k v ps rule: insert_prop.induct) auto

lemma keys_insert_prop: "fst ` set (insert_prop k v ps) = insert k (fst ` set ps)"
  by (simp add: set_insert_prop)

lemma keys_obj_set: "fst ` set (obj_set ps k v) = insert k (fst ` set ps)"
  by (auto simp: obj_set_def keys_replace_prop keys_insert_prop)

lemma obj_set_twice: "obj_set (obj_set ps k v) k v = obj_set ps k v"
proof -
  have r: "replace_prop k v (replace_prop k v qs) = replace_prop k v qs" for qs
    by (induction k v qs rule: replace_prop.induct) auto
  have i: "k \<notin> fst ` set qs \<Longrightarrow> replace_prop k v (insert_prop k v qs) = insert_prop k v qs" for qs
    by (induction k v qs rule: insert_prop.induct) (auto simp: image_iff)
  have m: "k \<in> fst ` set (obj_set ps k v)"
    by (simp add: keys_obj_set)
  show ?thesis
  proof (cases "k \<in> fst ` set ps")
    case True
    then show ?thesis using keys_replace_prop [OF True, of v] by (simp add: obj_set_def r)
  next
    case False
    then show ?thesis using keys_insert_prop [of k v ps] by (simp add: obj_set_def i)
  qed
qed

subsection \<open>Version 4 to 5\<close>

lemma backgroundKey_inj: "backgroundKey p = backgroundKey q \<longleftrightarrow> p = q"
  by (simp add: backgroundKey_def)

lemma migrateBackground_other:
  "k \<noteq> backgroundKey p \<Longrightarrow> contents (migrateBackground hbm s p) k = contents s k"
  by (simp add: migrateBackground_def Let_def storage_set_def storage_get_def split: option.splits)

lemma migrateBackground_cong:
  "contents s1 (backgroundKey p) = contents s2 (backgroundKey p) \<Longrightarrow>
   contents (migrateBackground hbm s1 p) (backgroundKey p) =
   contents (migrateBackground hbm s2 p) (backgroundKey p)"
  by (simp add: migrateBackground_def Let_def storage_set_def storage_get_def split: option.splits)

lemma foldl_migrateBackground_other:
  "k \<notin> backgroundKey ` set ps \<Longrightarrow> contents (foldl (migrateBackground hbm) s ps) k = contents s k"
  by (induction ps arbitrary: s) (auto simp: migrateBackground_other)

lemma foldl_migrateBackground_key:
  "distinct ps \<Longrightarrow> p \<in> set ps \<Longrightarrow>
   contents (foldl (migrateBackground hbm) s ps) (backgroundKey p) =
   contents (migrateBackground hbm s p) (backgroundKey p)"
proof (induction ps arbitrary: s)
  case Nil
  then show ?case by simp
next
  case (Cons q qs)
  show ?case
  proof (cases "p = q")
    case True
    with Cons.prems have "backgroundKey p \<notin> backgroundKey ` set qs"
      by (auto simp: backgroundKey_inj)
    then show ?thesis using True by (simp add: foldl_migrateBackground_other)
  next
    case False
    with Cons.prems have "p \<in> set qs" "distinct qs" by auto
    then have "contents (foldl (migrateBackground hbm) (migrateBackground hbm s q) qs) (backgroundKey p) =
       contents (migrateBackground hbm (migrateBackground hbm s q) p) (backgroundKey p)"
      by (rule Cons.IH [rotated])
    also have "\<dots> = contents (migrateBackground hbm s p) (backgroundKey p)"
      using False by (intro migrateBackground_cong migrateBackground_other) (simp add: backgroundKey_inj)
    finally show ?thesis by simp
  qed
qed

lemma distinct_infusionPageKeys: "distinct infusionPageKeys"
  by (simp add: infusionPageKeys_def)

lemma is_integer_of_int: "is_integer (of_int i)"
  by (simp add: is_integer_def)

lemma js_nth_of_nat: "js_nth xs (of_nat i) = (if i < length xs then Some (xs ! i) else None)"
  by (simp add: js_nth_def is_integer_def nth_opt_def)

text \<open>
  Claim C7. The step from version 4 to 5 returns. For each of the six page keys: when
  the stored background is an object without a truthy \<^verbatim>\<open>mediaId\<close> whose \<^verbatim>\<open>index\<close> is a
  number that addresses an entry of the builtin manifest, the key then holds an object
  whose \<^verbatim>\<open>mediaId\<close> is the file name of that builtin entry, with every other field as
  before and no field added or lost besides \<^verbatim>\<open>mediaId\<close>; in every other case (a
  \<^verbatim>\<open>mediaId\<close> is there, there is no numeric index, the index addresses no builtin
  entry, or the value is no object) the key holds what it held. No other key changes.
\<close>

theorem migrate_4_5_backgrounds:
  assumes "pageKey \<in> set infusionPageKeys"
    and "r = migrateUserSettingsStep numberToString generateShortId homeBannerMedia
               DEFAULT_HOME_BANNER_FILE_NAME s 4 5"
  shows "r = Returned (state_of r) \<and>
    (\<forall>ps x media.
        contents s (backgroundKey pageKey) = Some (JObj ps) \<and>
        \<not> truthy (obj_get ps ''mediaId'') \<and> obj_get ps ''index'' = Some (JNum x) \<and>
        js_nth homeBannerMedia x = Some media \<longrightarrow>
        (\<exists>ps'. contents (state_of r) (backgroundKey pageKey) = Some (JObj ps') \<and>
               obj_get ps' ''mediaId'' = Some (JStr (fileName media)) \<and>
               (\<forall>f. f \<noteq> ''mediaId'' \<longrightarrow> obj_get ps' f = obj_get ps f) \<and>
               fst ` set ps' = insert ''mediaId'' (fst ` set ps))) \<and>
    ((\<nexists>ps x media.
        contents s (backgroundKey pageKey) = Some (JObj ps) \<and>
        \<not> truthy (obj_get ps ''mediaId'') \<and> obj_get ps ''index'' = Some (JNum x) \<and>
        js_nth homeBannerMedia x = Some media) \<longrightarrow>
     contents (state_of r) (backgroundKey pageKey) = contents s (backgroundKey pageKey)) \<and>
    (\<forall>k. k \<notin> backgroundKey ` set infusionPageKeys \<longrightarrow> contents (state_of r) k = contents s k)"
proof -
  have r: "r = Returned (foldl (migrateBackground homeBannerMedia) s infusionPageKeys)"
    using assms(2) by (simp add: migrateUserSettingsStep_def migrate_4_5_def)
  have key: "contents (state_of r) (backgroundKey pageKey) =
      contents (migrateBackground homeBannerMedia s pageKey) (backgroundKey pageKey)"
    using foldl_migrateBackground_key [OF distinct_infusionPageKeys assms(1)] r by simp
  have a: "\<exists>ps'. contents (state_of r) (backgroundKey pageKey) = Some (JObj ps') \<and>
               obj_get ps' ''mediaId'' = Some (JStr (fileName media)) \<and>
               (\<forall>f. f \<noteq> ''mediaId'' \<longrightarrow> obj_get ps' f = obj_get ps f) \<and>
               fst ` set ps' = insert ''mediaId'' (fst ` set ps)"
    if "contents s (backgroundKey pageKey) = Some (JObj ps)"
       "\<not> truthy (obj_get ps ''mediaId'')" "obj_get ps ''index'' = Some (JNum x)"
       "js_nth homeBannerMedia x = Some media" for ps x media
    using that
    by (simp add: key migrateBackground_def Let_def storage_get_def storage_set_def
        obj_get_obj_set keys_obj_set)
  have b: "contents (state_of r) (backgroundKey pageKey) = contents s (backgroundKey pageKey)"
    if "\<nexists>ps x media.
        contents s (backgroundKey pageKey) = Some (JObj ps) \<and>
        \<not> truthy (obj_get ps ''mediaId'') \<and> obj_get ps ''index'' = Some (JNum x) \<and>
        js_nth homeBannerMedia x = Some media"
  proof (cases "contents s (backgroundKey pageKey)")
    case None
    then show ?thesis by (simp add: key migrateBackground_def Let_def storage_get_def)
  next
    case (Some bg)
    show ?thesis
    proof (cases bg)
      case (JObj ps)
      show ?thesis
      proof (cases "obj_get ps ''index''")
        case None
        then show ?thesis using Some JObj
          by (simp add: key migrateBackground_def Let_def storage_get_def)
      next
        case (Some i)
        with that \<open>contents s (backgroundKey pageKey) = Some bg\<close> JObj show ?thesis
          by (cases i)
            (auto simp: key migrateBackground_def Let_def storage_get_def split: option.splits)
      qed
    qed (use Some in \<open>simp_all add: key migrateBackground_def Let_def storage_get_def\<close>)
  qed
  have c: "\<forall>k. k \<notin> backgroundKey ` set infusionPageKeys \<longrightarrow> contents (state_of r) k = contents s k"
    using r by (simp add: foldl_migrateBackground_other)
  show ?thesis
  proof (intro conjI)
    show "r = Returned (state_of r)" using r by simp
    show "\<forall>ps x media.
        contents s (backgroundKey pageKey) = Some (JObj ps) \<and>
        \<not> truthy (obj_get ps ''mediaId'') \<and> obj_get ps ''index'' = Some (JNum x) \<and>
        js_nth homeBannerMedia x = Some media \<longrightarrow>
        (\<exists>ps'. contents (state_of r) (backgroundKey pageKey) = Some (JObj ps') \<and>
               obj_get ps' ''mediaId'' = Some (JStr (fileName media)) \<and>
               (\<forall>f. f \<noteq> ''mediaId'' \<longrightarrow> obj_get ps' f = obj_get ps f) \<and>
               fst ` set ps' = insert ''mediaId'' (fst ` set ps))"
      using a by blast
    show "(\<nexists>ps x media.
        contents s (backgroundKey pageKey) = Some (JObj ps) \<and>
        \<not> truthy (obj_get ps ''mediaId'') \<and> obj_get ps ''index'' = Some (JNum x) \<and>
        js_nth homeBannerMedia x = Some media) \<longrightarrow>
     contents (state_of r) (backgroundKey pageKey) = contents s (backgroundKey pageKey)"
      using b by blast
    show "\<forall>k. k \<notin> backgroundKey ` set infusionPageKeys \<longrightarrow> contents (state_of r) k = contents s k"
      by (rule c)
  qed
qed


theorem migrate_4_5_backgrounds_witness:
  "(\<exists>ps'. contents (state_of (migrateUserSettingsStep (\<lambda>x. []) (\<lambda>n. []) catalog_manifest
                     ''default.jpg'' background_storage 4 5)) ''infusion.pages.home.background'' =
            Some (JObj ps') \<and>
          obj_get ps' ''mediaId'' = Some (JStr ''default.jpg'') \<and>
          obj_get ps' ''index'' = Some (JNum 0) \<and>
          obj_get ps' ''path'' = Some (JStr ''default.jpg'')) \<and>
   contents (state_of (migrateUserSettingsStep (\<lambda>x. []) (\<lambda>n. []) catalog_manifest
               ''default.jpg'' background_storage 4 5)) ''infusion.pages.settings.background'' =
     Some (JObj [(''type'', JStr ''image''), (''index'', JNum 0), (''mediaId'', JStr ''other.jpg'')])"
proof -
  let ?r = "migrateUserSettingsStep (\<lambda>x. []) (\<lambda>n. []) catalog_manifest
                     ''default.jpg'' background_storage 4 5"
  have h: "''home'' \<in> set infusionPageKeys" "''settings'' \<in> set infusionPageKeys"
    by (simp_all add: infusionPageKeys_def)
  have k: "backgroundKey ''home'' = ''infusion.pages.home.background''"
          "backgroundKey ''settings'' = ''infusion.pages.settings.background''"
    by (simp_all add: backgroundKey_def)
  have c1: "contents background_storage ''infusion.pages.home.background'' =
      Some (JObj [(''type'', JStr ''image''), (''path'', JStr ''default.jpg''), (''index'', JNum 0)])"
    by (simp add: background_storage_def)
  have c2: "contents background_storage ''infusion.pages.settings.background'' =
      Some (JObj [(''type'', JStr ''image''), (''index'', JNum 0), (''mediaId'', JStr ''other.jpg'')])"
    by (simp add: background_storage_def)
  have n: "js_nth catalog_manifest 0 = Some \<lparr>fileName = ''default.jpg'', name = ''Default'', type = image_media\<rparr>"
    using js_nth_of_nat [of catalog_manifest 0] by (simp add: catalog_manifest_def)
  let ?ps = "[(''type'', JStr ''image''), (''path'', JStr ''default.jpg''), (''index'', JNum 0)]"
  have g: "\<not> truthy (obj_get ?ps ''mediaId'')" "obj_get ?ps ''index'' = Some (JNum 0)"
          "obj_get ?ps ''path'' = Some (JStr ''default.jpg'')"
    by (simp_all add: obj_get_def)
  note t1 = migrate_4_5_backgrounds [OF h(1) refl, of "\<lambda>x. []" "\<lambda>n. []" catalog_manifest
      "''default.jpg''" background_storage]
  from t1 have "\<forall>ps x media.
        contents background_storage (backgroundKey ''home'') = Some (JObj ps) \<and>
        \<not> truthy (obj_get ps ''mediaId'') \<and> obj_get ps ''index'' = Some (JNum x) \<and>
        js_nth catalog_manifest x = Some media \<longrightarrow>
        (\<exists>ps'. contents (state_of ?r) (backgroundKey ''home'') = Some (JObj ps') \<and>
               obj_get ps' ''mediaId'' = Some (JStr (fileName media)) \<and>
               (\<forall>f. f \<noteq> ''mediaId'' \<longrightarrow> obj_get ps' f = obj_get ps f) \<and>
               fst ` set ps' = insert ''mediaId'' (fst ` set ps))"
    by blast
  from this [rule_format, of ?ps 0, OF conjI [OF _ conjI [OF g(1) conjI [OF g(2) n]]]] c1
  obtain ps' where p: "contents (state_of ?r) (backgroundKey ''home'') = Some (JObj ps')"
      "obj_get ps' ''mediaId'' = Some (JStr ''default.jpg'')"
      "\<forall>f. f \<noteq> ''mediaId'' \<longrightarrow> obj_get ps' f = obj_get ?ps f"
    by (auto simp: k)
  from p(3) g have "obj_get ps' ''index'' = Some (JNum 0)" "obj_get ps' ''path'' = Some (JStr ''default.jpg'')"
    by simp_all
  with p have a: "\<exists>ps'. contents (state_of ?r) ''infusion.pages.home.background'' = Some (JObj ps') \<and>
          obj_get ps' ''mediaId'' = Some (JStr ''default.jpg'') \<and>
          obj_get ps' ''index'' = Some (JNum 0) \<and>
          obj_get ps' ''path'' = Some (JStr ''default.jpg'')"
    by (auto simp: k)
  let ?qs = "[(''type'', JStr ''image''), (''index'', JNum 0), (''mediaId'', JStr ''other.jpg'')]"
  have g2: "truthy (obj_get ?qs ''mediaId'')"
    by (simp add: obj_get_def)
  note t2 = migrate_4_5_backgrounds [OF h(2) refl, of "\<lambda>x. []" "\<lambda>n. []" catalog_manifest
      "''default.jpg''" background_storage]
  have "\<nexists>ps x media.
        contents background_storage (backgroundKey ''settings'') = Some (JObj ps) \<and>
        \<not> truthy (obj_get ps ''mediaId'') \<and> obj_get ps ''index'' = Some (JNum x) \<and>
        js_nth catalog_manifest x = Some media"
    using c2 g2 by (auto simp: k)
  with t2 have "contents (state_of ?r) (backgroundKey ''settings'') =
      contents background_storage (backgroundKey ''settings'')"
    by blast
  then have b: "contents (state_of ?r) ''infusion.pages.settings.background'' =
     Some (JObj [(''type'', JStr ''image''), (''index'', JNum 0), (''mediaId'', JStr ''other.jpg'')])"
    using c2 by (simp add: k)
  from a b show ?thesis by blast
qed

subsection \<open>Version 3 to 4\<close>

lemma isBlankMediaId_iff:
  "isBlankMediaId v \<longleftrightarrow> (\<forall>str. v = Some (JStr str) \<longrightarrow> trim str = [])"
proof (cases v)
  case None
  then show ?thesis by (simp add: isBlankMediaId_def)
next
  case (Some x)
  then show ?thesis by (cases x) (auto simp: isBlankMediaId_def trim_def)
qed

lemma is_integer_nonneg: "is_integer x \<Longrightarrow> 0 \<le> x \<Longrightarrow> \<exists>i. x = of_nat i"
  by (metis is_integer_def of_int_of_nat_eq int_nat_eq zero_le_floor)

text \<open>
  Claim C4, as stated, fails: the entry at the index has an id, the empty string, and
  the step writes the default file name instead.
\<close>

theorem migrate_3_4_entry_without_id:
  "contents blank_id_storage ''homeBannerMediaId'' = None \<and>
   contents blank_id_storage ''homeBannerIndex'' = Some (JNum 0) \<and>
   contents blank_id_storage ''homeBannerCustomMedia'' =
     Some (JArr [JObj [(''path'', JStr ''/a.jpg''), (''id'', JStr [])]]) \<and>
   contents (state_of (migrateUserSettingsStep (\<lambda>x. []) (\<lambda>n. []) catalog_manifest ''default.jpg''
                         blank_id_storage 3 4)) ''homeBannerMediaId'' = Some (JStr ''default.jpg'')"
proof -
  have "resolveMediaId catalog_manifest ''default.jpg''
          (Some (JArr [JObj [(''path'', JStr ''/a.jpg''), (''id'', JStr [])]])) (Some (JNum 0)) =
        JStr ''default.jpg''"
    by code_simp
  then show ?thesis
    by (simp add: migrateUserSettingsStep_def migrate_3_4_def Let_def storage_get_def storage_set_def
        blank_id_storage_def isBlankMediaId_def)
qed

text \<open>
  Claim C4, amended. When the stored \<^verbatim>\<open>homeBannerMediaId\<close> is absent, not a string or
  blank after trimming, the step from version 3 to 4 returns after exactly one write,
  of \<^verbatim>\<open>homeBannerMediaId\<close>. With the index taken from \<^verbatim>\<open>homeBannerIndex\<close> (0 when that is
  not a number) and the custom list from \<^verbatim>\<open>homeBannerCustomMedia\<close> (empty when that is
  not an array): an integer index below the custom count yields the \<^verbatim>\<open>id\<close> of that
  entry when the entry is an object with a truthy \<^verbatim>\<open>id\<close>, and the default file name
  otherwise; an integer index from the custom count up to the total count yields the
  file name of the builtin entry at the offset; every other index (negative, beyond the
  catalog, not an integer, or any index on an empty catalog) yields the default file name.
\<close>

theorem migrate_3_4_selected_media_id:
  assumes blank: "\<forall>str. contents s ''homeBannerMediaId'' = Some (JStr str) \<longrightarrow> trim str = []"
    and r: "r = migrateUserSettingsStep numberToString generateShortId homeBannerMedia
               DEFAULT_HOME_BANNER_FILE_NAME s 3 4"
    and customs: "customs = (case contents s ''homeBannerCustomMedia'' of
                               Some (JArr xs) \<Rightarrow> xs | _ \<Rightarrow> [])"
    and idx: "idx = (case contents s ''homeBannerIndex'' of Some (JNum x) \<Rightarrow> x | _ \<Rightarrow> 0)"
  shows "\<exists>v. r = Returned (storage_set s ''homeBannerMediaId'' v) \<and>
     (\<forall>i. idx = of_nat i \<and> i < length customs \<longrightarrow>
        v = (case customs ! i of
               JObj ps \<Rightarrow> (case obj_get ps ''id'' of
                             Some x \<Rightarrow> if truthy (Some x) then x
                                       else JStr DEFAULT_HOME_BANNER_FILE_NAME
                           | None \<Rightarrow> JStr DEFAULT_HOME_BANNER_FILE_NAME)
             | _ \<Rightarrow> JStr DEFAULT_HOME_BANNER_FILE_NAME)) \<and>
     (\<forall>i. idx = of_nat i \<and> length customs \<le> i \<and> i < length customs + length homeBannerMedia \<longrightarrow>
        v = JStr (fileName (homeBannerMedia ! (i - length customs)))) \<and>
     ((\<nexists>i. idx = of_nat i \<and> i < length customs + length homeBannerMedia) \<longrightarrow>
        v = JStr DEFAULT_HOME_BANNER_FILE_NAME)"
proof -
  let ?v = "resolveMediaId homeBannerMedia DEFAULT_HOME_BANNER_FILE_NAME
              (contents s ''homeBannerCustomMedia'') (contents s ''homeBannerIndex'')"
  have ret: "r = Returned (storage_set s ''homeBannerMediaId'' ?v)"
    using blank r
    by (simp add: migrateUserSettingsStep_def migrate_3_4_def Let_def storage_get_def
        isBlankMediaId_iff)
  have cs: "(case contents s ''homeBannerCustomMedia'' of Some (JArr xs) \<Rightarrow> xs | _ \<Rightarrow> []) = customs"
    by (simp add: customs)
  have ix: "(case contents s ''homeBannerIndex'' of Some (JNum x) \<Rightarrow> x | _ \<Rightarrow> 0) = idx"
    by (simp add: idx)
  have v: "?v =
     (if 0 < length customs + length homeBannerMedia \<and> 0 \<le> idx \<and>
         idx < of_nat (length customs + length homeBannerMedia)
      then (if idx < of_nat (length customs)
            then (let entry = js_nth customs idx
                  in if truthy entry \<and> typeof entry = TObject \<and> truthy (get_prop (the entry) ''id'')
                     then the (get_prop (the entry) ''id'')
                     else JStr DEFAULT_HOME_BANNER_FILE_NAME)
            else (case js_nth homeBannerMedia (idx - of_nat (length customs)) of
                    Some media \<Rightarrow> JStr (fileName media)
                  | None \<Rightarrow> JStr DEFAULT_HOME_BANNER_FILE_NAME))
      else JStr DEFAULT_HOME_BANNER_FILE_NAME)"
    unfolding resolveMediaId_def cs ix Let_def by simp
  have a: "?v = (case customs ! i of
               JObj ps \<Rightarrow> (case obj_get ps ''id'' of
                             Some x \<Rightarrow> if truthy (Some x) then x
                                       else JStr DEFAULT_HOME_BANNER_FILE_NAME
                           | None \<Rightarrow> JStr DEFAULT_HOME_BANNER_FILE_NAME)
             | _ \<Rightarrow> JStr DEFAULT_HOME_BANNER_FILE_NAME)"
    if i: "idx = of_nat i" "i < length customs" for i
  proof -
    from i have rng: "0 < length customs + length homeBannerMedia" "0 \<le> idx"
        "idx < of_nat (length customs + length homeBannerMedia)" "idx < of_nat (length customs)"
      by (linarith, simp, simp, simp)
    have e: "js_nth customs idx = Some (customs ! i)"
      using i by (simp add: js_nth_of_nat)
    have "?v = (if truthy (Some (customs ! i)) \<and> typeof (Some (customs ! i)) = TObject \<and>
                   truthy (get_prop (customs ! i) ''id'')
                then the (get_prop (customs ! i) ''id'')
                else JStr DEFAULT_HOME_BANNER_FILE_NAME)"
      unfolding v using rng by (simp add: e Let_def)
    then show ?thesis
      by (cases "customs ! i") (auto split: option.splits)
  qed
  have b: "?v = JStr (fileName (homeBannerMedia ! (i - length customs)))"
    if i: "idx = of_nat i" "length customs \<le> i" "i < length customs + length homeBannerMedia" for i
  proof -
    have d: "idx - of_nat (length customs) = of_nat (i - length customs)"
      using i by (simp add: of_nat_diff)
    have e: "js_nth homeBannerMedia (idx - of_nat (length customs)) =
        Some (homeBannerMedia ! (i - length customs))"
      unfolding d js_nth_of_nat using i by auto
    from i have rng: "0 < length customs + length homeBannerMedia" "0 \<le> idx"
        "idx < of_nat (length customs + length homeBannerMedia)" "\<not> idx < of_nat (length customs)"
      by (linarith, simp, simp, simp)
    have "?v = (case js_nth homeBannerMedia (idx - of_nat (length customs)) of
                  Some media \<Rightarrow> JStr (fileName media)
                | None \<Rightarrow> JStr DEFAULT_HOME_BANNER_FILE_NAME)"
      unfolding v using rng by simp
    then show ?thesis unfolding e by simp
  qed
  have c: "?v = JStr DEFAULT_HOME_BANNER_FILE_NAME"
    if n: "\<nexists>i. idx = of_nat i \<and> i < length customs + length homeBannerMedia"
  proof (cases "0 \<le> idx \<and> idx < of_nat (length customs + length homeBannerMedia)")
    case False
    then show ?thesis by (auto simp: v)
  next
    case True
    have ni: "\<not> is_integer idx"
    proof
      assume "is_integer idx"
      with True obtain i where i: "idx = of_nat i" using is_integer_nonneg by blast
      with True have "i < length customs + length homeBannerMedia" by simp
      with i n show False by blast
    qed
    have "\<not> is_integer (idx - of_nat (length customs))"
    proof
      assume "is_integer (idx - of_nat (length customs))"
      then have "idx - of_nat (length customs) = of_int \<lfloor>idx - of_nat (length customs)\<rfloor>"
        by (simp add: is_integer_def)
      then have "idx = of_int (\<lfloor>idx - of_nat (length customs)\<rfloor> + int (length customs))"
        by (simp add: algebra_simps)
      then have "is_integer idx" by (metis is_integer_of_int)
      with ni show False by simp
    qed
    with ni show ?thesis by (simp add: v js_nth_def Let_def)
  qed
  from ret a b c show ?thesis by blast
qed


theorem migrate_3_4_selected_media_id_witness:
  "contents (state_of (migrateUserSettingsStep (\<lambda>x. []) (\<lambda>n. []) catalog_manifest ''default.jpg''
                         (selected_index_storage 0) 3 4)) ''homeBannerMediaId'' = Some (JStr ''aaaaaaaa'') \<and>
   contents (state_of (migrateUserSettingsStep (\<lambda>x. []) (\<lambda>n. []) catalog_manifest ''default.jpg''
                         (selected_index_storage 1) 3 4)) ''homeBannerMediaId'' = Some (JStr ''default.jpg'') \<and>
   contents (state_of (migrateUserSettingsStep (\<lambda>x. []) (\<lambda>n. []) catalog_manifest ''default.jpg''
                         (selected_index_storage 7) 3 4)) ''homeBannerMediaId'' = Some (JStr ''default.jpg'')"
proof -
  have blank: "\<forall>str. contents (selected_index_storage i) ''homeBannerMediaId'' = Some (JStr str) \<longrightarrow> trim str = []" for i
    by (simp add: selected_index_storage_def)
  have cs: "(case contents (selected_index_storage i) ''homeBannerCustomMedia'' of
              Some (JArr xs) \<Rightarrow> xs | _ \<Rightarrow> []) =
            [JObj [(''path'', JStr ''/a.jpg''), (''id'', JStr ''aaaaaaaa'')]]" for i
    by (simp add: selected_index_storage_def)
  have ix: "(case contents (selected_index_storage i) ''homeBannerIndex'' of Some (JNum x) \<Rightarrow> x | _ \<Rightarrow> 0) = i" for i
    by (simp add: selected_index_storage_def)
  note t = migrate_3_4_selected_media_id [OF blank refl refl refl, of "\<lambda>x. []" "\<lambda>n. []" catalog_manifest
      "''default.jpg''", unfolded cs ix]
  from t [of 0] obtain v0 where v0:
      "migrateUserSettingsStep (\<lambda>x. []) (\<lambda>n. []) catalog_manifest ''default.jpg'' (selected_index_storage 0) 3 4 =
         Returned (storage_set (selected_index_storage 0) ''homeBannerMediaId'' v0)"
      "\<forall>i. (0::rat) = of_nat i \<and> i < length [JObj [(''path'', JStr ''/a.jpg''), (''id'', JStr ''aaaaaaaa'')]] \<longrightarrow>
         v0 = (case [JObj [(''path'', JStr ''/a.jpg''), (''id'', JStr ''aaaaaaaa'')]] ! i of
               JObj ps \<Rightarrow> (case obj_get ps ''id'' of
                             Some x \<Rightarrow> if truthy (Some x) then x else JStr ''default.jpg''
                           | None \<Rightarrow> JStr ''default.jpg'')
             | _ \<Rightarrow> JStr ''default.jpg'')"
    by blast
  from v0(2) [rule_format, of 0] have "v0 = JStr ''aaaaaaaa''"
    by (simp add: obj_get_def)
  with v0(1) have a: "contents (state_of (migrateUserSettingsStep (\<lambda>x. []) (\<lambda>n. []) catalog_manifest ''default.jpg''
                         (selected_index_storage 0) 3 4)) ''homeBannerMediaId'' = Some (JStr ''aaaaaaaa'')"
    by (simp add: storage_set_def)
  from t [of 1] obtain v1 where v1:
      "migrateUserSettingsStep (\<lambda>x. []) (\<lambda>n. []) catalog_manifest ''default.jpg'' (selected_index_storage 1) 3 4 =
         Returned (storage_set (selected_index_storage 1) ''homeBannerMediaId'' v1)"
      "\<forall>i. (1::rat) = of_nat i \<and> length [JObj [(''path'', JStr ''/a.jpg''), (''id'', JStr ''aaaaaaaa'')]] \<le> i \<and>
           i < length [JObj [(''path'', JStr ''/a.jpg''), (''id'', JStr ''aaaaaaaa'')]] + length catalog_manifest \<longrightarrow>
         v1 = JStr (fileName (catalog_manifest !
                (i - length [JObj [(''path'', JStr ''/a.jpg''), (''id'', JStr ''aaaaaaaa'')]])))"
    by blast
  from v1(2) [rule_format, of 1] have "v1 = JStr ''default.jpg''"
    by (simp add: catalog_manifest_def)
  with v1(1) have b: "contents (state_of (migrateUserSettingsStep (\<lambda>x. []) (\<lambda>n. []) catalog_manifest ''default.jpg''
                         (selected_index_storage 1) 3 4)) ''homeBannerMediaId'' = Some (JStr ''default.jpg'')"
    by (simp add: storage_set_def)
  from t [of 7] obtain v7 where v7:
      "migrateUserSettingsStep (\<lambda>x. []) (\<lambda>n. []) catalog_manifest ''default.jpg'' (selected_index_storage 7) 3 4 =
         Returned (storage_set (selected_index_storage 7) ''homeBannerMediaId'' v7)"
      "(\<nexists>i. (7::rat) = of_nat i \<and>
            i < length [JObj [(''path'', JStr ''/a.jpg''), (''id'', JStr ''aaaaaaaa'')]] + length catalog_manifest) \<longrightarrow>
         v7 = JStr ''default.jpg''"
    by blast
  have "\<nexists>i. (7::rat) = of_nat i \<and>
            i < length [JObj [(''path'', JStr ''/a.jpg''), (''id'', JStr ''aaaaaaaa'')]] + length catalog_manifest"
  proof
    assume "\<exists>i. (7::rat) = of_nat i \<and>
            i < length [JObj [(''path'', JStr ''/a.jpg''), (''id'', JStr ''aaaaaaaa'')]] + length catalog_manifest"
    then obtain i where "(7::rat) = of_nat i" "i < 2" by (auto simp: catalog_manifest_def)
    then show False by (cases i) (auto simp: less_Suc_eq)
  qed
  with v7 have c: "contents (state_of (migrateUserSettingsStep (\<lambda>x. []) (\<lambda>n. []) catalog_manifest ''default.jpg''
                         (selected_index_storage 7) 3 4)) ''homeBannerMediaId'' = Some (JStr ''default.jpg'')"
    by (simp add: storage_set_def)
  from a b c show ?thesis by blast
qed

subsection \<open>Version 2 to 3\<close>








lemma rewritten_entries_Cons:
  "rewritten_entries nts cs bs (e # ps) =
     (case rewritten_entry nts cs bs e of
        None \<Rightarrow> rewritten_entries nts cs bs ps
      | Some w \<Rightarrow> w # rewritten_entries nts cs bs ps)"
  by (simp add: rewritten_entries_def List.map_filter_simps split: option.splits)

lemma rewritten_entries_Nil: "rewritten_entries nts cs bs [] = []"
  by (simp add: rewritten_entries_def List.map_filter_simps)

lemma rewritten_entries_set:
  "w \<in> set (rewritten_entries nts cs bs ps) \<longleftrightarrow> (\<exists>e \<in> set ps. rewritten_entry nts cs bs e = Some w)"
  by (induction ps) (auto simp: rewritten_entries_Nil rewritten_entries_Cons split: option.splits)

lemma migrateCustomMedia_contents:
  "migrateCustomMedia gen s = (cs, s1) \<Longrightarrow> k \<noteq> ''homeBannerCustomMedia'' \<Longrightarrow> contents s1 k = contents s k"
  by (auto simp: migrateCustomMedia_def storage_get_def storage_set_def Let_def
      split: option.splits jval.splits if_splits)


lemma set_replace_prop: "set (replace_prop k v ps) \<subseteq> insert (k, v) (set ps)"
  by (induction k v ps rule: replace_prop.induct) auto




lemma set_own_assign: "set (own (assign a k v)) \<subseteq> insert (k, v) (set (own a))"
  using set_replace_prop [of k v "own a"]
  by (auto simp: assign_def set_insert_prop)



lemma set_foldl_assign:
  "set (own (foldl (\<lambda>a (k, v). assign a k v) acc ws)) \<subseteq> set (own acc) \<union> set ws"
proof (induction ws rule: rev_induct)
  case Nil
  then show ?case by simp
next
  case (snoc w ws)
  obtain k v where w: "w = (k, v)" by (cases w)
  show ?case
    using snoc set_own_assign [of "foldl (\<lambda>a (k, v). assign a k v) acc ws" k v]
    by (auto simp: w)
qed


lemma migratePositions_fold:
  "migratePositions nts cs bs ps acc = Some out \<Longrightarrow>
   out = foldl (\<lambda>a (k, v). assign a k v) acc (rewritten_entries nts cs bs ps)"
proof (induction ps arbitrary: acc)
  case Nil
  then show ?case by (simp add: rewritten_entries_Nil)
next
  case (Cons e ps)
  obtain key position where e: "e = (key, position)" by (cases e)
  show ?case
  proof (cases "isPositionObject position")
    case False
    then have "rewritten_entry nts cs bs e = None" by (simp add: rewritten_entry_def e)
    moreover from False Cons.prems have "migratePositions nts cs bs ps acc = Some out"
      by (simp add: e isPositionObject_def)
    ultimately show ?thesis using Cons.IH by (simp add: rewritten_entries_Cons)
  next
    case True
    then have obj: "truthy (Some position)" "typeof (Some position) = TObject"
      by (simp_all add: isPositionObject_def)
    show ?thesis
    proof (cases "parseInt key")
      case None
      then have "rewritten_entry nts cs bs e = Some (key, position)"
        using True by (simp add: rewritten_entry_def rewritten_key_def e)
      moreover from None obj Cons.prems
      have "migratePositions nts cs bs ps (assign acc key position) = Some out"
        by (simp add: e)
      ultimately show ?thesis using Cons.IH by (simp add: rewritten_entries_Cons)
    next
      case (Some index)
      show ?thesis
      proof (cases "index < int (length cs)")
        case lt: True
        from Some obj lt Cons.prems obtain entry k where
          entry: "nth_opt cs index = Some entry" "entry \<noteq> JNull"
          and k: "to_property_key nts (get_prop entry ''id'') = Some k"
          and rest: "migratePositions nts cs bs ps (assign acc k (validPosition position)) = Some out"
          by (auto simp: e split: option.splits jval.splits)
        from entry(1) have i: "0 \<le> index" "entry = cs ! nat index"
          by (auto simp: nth_opt_def split: if_splits)
        then have "rewritten_entry nts cs bs e = Some (k, validPosition position)"
          using True Some lt k by (simp add: rewritten_entry_def rewritten_key_def e)
        then show ?thesis using Cons.IH [OF rest] by (simp add: rewritten_entries_Cons)
      next
        case ge: False
        show ?thesis
        proof (cases "index - int (length cs) < int (length bs)")
          case True
          with Some obj ge Cons.prems
          have rest: "migratePositions nts cs bs ps
              (assign acc (fileName (bs ! nat (index - int (length cs)))) (validPosition position)) = Some out"
            by (simp add: e Let_def)
          have "rewritten_entry nts cs bs e =
              Some (fileName (bs ! nat (index - int (length cs))), validPosition position)"
            using \<open>isPositionObject position\<close> Some ge True
            by (simp add: rewritten_entry_def rewritten_key_def e)
          then show ?thesis using Cons.IH [OF rest] by (simp add: rewritten_entries_Cons)
        next
          case False
          with Some obj ge Cons.prems have rest: "migratePositions nts cs bs ps acc = Some out"
            by (simp add: e Let_def)
          have "rewritten_entry nts cs bs e = None"
            using \<open>isPositionObject position\<close> Some ge False
            by (simp add: rewritten_entry_def rewritten_key_def e)
          then show ?thesis using Cons.IH [OF rest] by (simp add: rewritten_entries_Cons)
        qed
      qed
    qed
  qed
qed


lemma migrate_2_3_returned:
  assumes "migrateCustomMedia gen s = (cs, s1)"
    and "contents s ''homeBannerPositions'' = Some pv"
    and "hasNumericKeys (Some pv)"
    and "migratePositions nts cs hbm (own_entries pv) empty_object = Some out"
  shows "migrateUserSettingsStep nts gen hbm d s 2 3 =
           Returned (storage_set s1 ''homeBannerPositions'' (JObj (own out)))"
proof -
  have "contents s1 ''homeBannerPositions'' = Some pv"
    using migrateCustomMedia_contents [OF assms(1), of "''homeBannerPositions''"] assms(2) by simp
  then show ?thesis
    using assms by (simp add: migrateUserSettingsStep_def migrate_2_3_def storage_get_def)
qed

lemma migrateCustomMedia_legacy:
  assumes "contents s ''homeBannerCustomMedia'' = Some (JArr (JStr p # xs))"
  shows "migrateCustomMedia gen s =
     (map (\<lambda>(n, path). JObj [(''path'', path), (''id'', JStr (gen n))]) (enumerate 0 (JStr p # xs)),
      storage_set s ''homeBannerCustomMedia''
        (JArr (map (\<lambda>(n, path). JObj [(''path'', path), (''id'', JStr (gen n))])
                 (enumerate 0 (JStr p # xs)))))"
  using assms by (simp add: migrateCustomMedia_def storage_get_def Let_def)

lemma migrateCustomMedia_objects:
  assumes "contents s ''homeBannerCustomMedia'' = Some (JArr (JObj e # xs))"
  shows "migrateCustomMedia gen s = (JObj e # xs, s)"
  using assms by (simp add: migrateCustomMedia_def storage_get_def Let_def)







text \<open>
  Claim C10, as stated, fails: the value under the kept key \<^verbatim>\<open>note\<close> is written as it
  was, with a \<^verbatim>\<open>positionX\<close> that is not a number and no \<^verbatim>\<open>positionY\<close> or \<^verbatim>\<open>zoom\<close>.
\<close>

theorem migrate_2_3_value_kept_verbatim:
  "contents (state_of (migrateUserSettingsStep (\<lambda>x. []) letter_ids catalog_manifest ''default.jpg''
                         verbatim_storage 2 3)) ''homeBannerPositions'' =
     Some (JObj [(''aaaaaaaa'', position 10 20 100),
                 (''note'', JObj [(''positionX'', JStr ''left'')])])"
proof -
  let ?cs = "[JObj [(''path'', JStr ''/a.jpg''), (''id'', JStr ''aaaaaaaa'')]]"
  let ?ps0 = "[(''0'', position 10 20 100), (''note'', JObj [(''positionX'', JStr ''left'')])]"
  have c0: "migrateCustomMedia letter_ids verbatim_storage =
      (?cs, storage_set verbatim_storage ''homeBannerCustomMedia'' (JArr ?cs))"
    by (subst migrateCustomMedia_legacy [where p = "''/a.jpg''" and xs = "[]"])
      (simp_all add: verbatim_storage_def letter_ids_def enumerate_eq_zip upt_rec)
  have p0: "contents verbatim_storage ''homeBannerPositions'' = Some (JObj ?ps0)"
    by (simp add: verbatim_storage_def)
  have n0: "hasNumericKeys (Some (JObj ?ps0))" by code_simp
  have m0: "migratePositions (\<lambda>x. []) ?cs catalog_manifest (own_entries (JObj ?ps0)) empty_object =
      Some \<lparr>own = [(''aaaaaaaa'', position 10 20 100), (''note'', JObj [(''positionX'', JStr ''left'')])], prototype = None\<rparr>"
    by code_simp
  show ?thesis
    unfolding migrate_2_3_returned [OF c0 p0 n0 m0, unfolded plain_object.select_convs] state_of.simps
    by (simp add: storage_set_def)
qed

text \<open>
  Claim C10, amended. When the step returns on a position map with a key matching
  \<^verbatim>\<open>^\d+$\<close>, every value of the stored map comes from an entry whose value is an
  object (an entry with any other value leaves nothing in the map, whatever its key):
  either the key is one that \<^verbatim>\<open>parseInt\<close> reads as \<^verbatim>\<open>NaN\<close> and key and value are kept as
  they were, or the key was read as an index and the value is the normalised position,
  with \<^verbatim>\<open>positionX\<close> and \<^verbatim>\<open>positionY\<close> replaced by 50 and \<^verbatim>\<open>zoom\<close> by 100 where they
  are not numbers.
\<close>

theorem migrate_2_3_position_values:
  assumes ret: "migrateUserSettingsStep numberToString generateShortId homeBannerMedia
                  DEFAULT_HOME_BANNER_FILE_NAME s 2 3 = Returned s'"
    and numeric: "hasNumericKeys (contents s ''homeBannerPositions'')"
    and positions: "contents s ''homeBannerPositions'' = Some positionsValue"
  shows "\<exists>out. contents s' ''homeBannerPositions'' = Some (JObj out) \<and>
     (\<forall>k' v'. obj_get out k' = Some v' \<longrightarrow>
        (\<exists>k v. (k, v) \<in> set (own_entries positionsValue) \<and>
               truthy (Some v) \<and> typeof (Some v) = TObject \<and>
               ((parseInt k = None \<and> k' = k \<and> v' = v) \<or>
                (parseInt k \<noteq> None \<and>
                 v' = JObj [(''positionX'', JNum (case get_prop v ''positionX'' of
                                                   Some (JNum x) \<Rightarrow> x | _ \<Rightarrow> 50)),
                            (''positionY'', JNum (case get_prop v ''positionY'' of
                                                   Some (JNum y) \<Rightarrow> y | _ \<Rightarrow> 50)),
                            (''zoom'', JNum (case get_prop v ''zoom'' of
                                              Some (JNum z) \<Rightarrow> z | _ \<Rightarrow> 100))]))))"
proof -
  obtain cs s1 where custom: "migrateCustomMedia generateShortId s = (cs, s1)"
    by (cases "migrateCustomMedia generateShortId s")
  have p1: "contents s1 ''homeBannerPositions'' = Some positionsValue"
    using migrateCustomMedia_contents [OF custom, of "''homeBannerPositions''"] positions by simp
  from ret numeric obtain result where
    result: "migratePositions numberToString cs homeBannerMedia (own_entries positionsValue)
               empty_object = Some result"
    and s': "s' = storage_set s1 ''homeBannerPositions'' (JObj (own result))"
    by (auto simp: migrateUserSettingsStep_def migrate_2_3_def custom storage_get_def p1 positions
        split: option.splits)
  define out where "out = own result"
  let ?ws = "rewritten_entries numberToString cs homeBannerMedia (own_entries positionsValue)"
  have fold: "result = foldl (\<lambda>a (k, v). assign a k v) empty_object ?ws"
    by (rule migratePositions_fold [OF result])
  have vp: "validPosition v =
      JObj [(''positionX'', JNum (case get_prop v ''positionX'' of Some (JNum x) \<Rightarrow> x | _ \<Rightarrow> 50)),
            (''positionY'', JNum (case get_prop v ''positionY'' of Some (JNum y) \<Rightarrow> y | _ \<Rightarrow> 50)),
            (''zoom'', JNum (case get_prop v ''zoom'' of Some (JNum z) \<Rightarrow> z | _ \<Rightarrow> 100))]" for v
    by (simp add: validPosition_def split: option.splits jval.splits)
  have src: "\<exists>k v. (k, v) \<in> set (own_entries positionsValue) \<and>
               truthy (Some v) \<and> typeof (Some v) = TObject \<and>
               ((parseInt k = None \<and> k' = k \<and> v' = v) \<or>
                (parseInt k \<noteq> None \<and> v' = validPosition v))"
    if "obj_get out k' = Some v'" for k' v'
  proof -
    from that have "(k', v') \<in> set out" by (simp add: obj_get_def map_of_SomeD)
    then have "(k', v') \<in> set ?ws"
      using set_foldl_assign [of empty_object ?ws] by (auto simp: out_def fold empty_object_def)
    then obtain e where e: "e \<in> set (own_entries positionsValue)"
        "rewritten_entry numberToString cs homeBannerMedia e = Some (k', v')"
      by (auto simp: rewritten_entries_set)
    obtain k v where kv: "e = (k, v)" by (cases e)
    from e(2) have "truthy (Some v) \<and> typeof (Some v) = TObject \<and>
               ((parseInt k = None \<and> k' = k \<and> v' = v) \<or>
                (parseInt k \<noteq> None \<and> v' = validPosition v))"
      by (auto simp: rewritten_entry_def rewritten_key_def isPositionObject_def kv
          split: if_splits option.splits)
    with e(1) show ?thesis by (auto simp: kv)
  qed
  have "contents s' ''homeBannerPositions'' = Some (JObj out)"
    by (simp add: s' storage_set_def out_def)
  moreover have "\<forall>k' v'. obj_get out k' = Some v' \<longrightarrow>
        (\<exists>k v. (k, v) \<in> set (own_entries positionsValue) \<and>
               truthy (Some v) \<and> typeof (Some v) = TObject \<and>
               ((parseInt k = None \<and> k' = k \<and> v' = v) \<or>
                (parseInt k \<noteq> None \<and>
                 v' = JObj [(''positionX'', JNum (case get_prop v ''positionX'' of
                                                   Some (JNum x) \<Rightarrow> x | _ \<Rightarrow> 50)),
                            (''positionY'', JNum (case get_prop v ''positionY'' of
                                                   Some (JNum y) \<Rightarrow> y | _ \<Rightarrow> 50)),
                            (''zoom'', JNum (case get_prop v ''zoom'' of
                                              Some (JNum z) \<Rightarrow> z | _ \<Rightarrow> 100))])))"
    using src unfolding vp by blast
  ultimately show ?thesis by blast
qed


theorem migrate_2_3_position_values_witness:
  "\<exists>out. contents (state_of (migrateUserSettingsStep (\<lambda>x. []) letter_ids catalog_manifest
                                 ''default.jpg'' scenario_storage 2 3)) ''homeBannerPositions'' =
           Some (JObj out) \<and>
     (\<forall>k' v'. obj_get out k' = Some v' \<longrightarrow>
        (\<exists>k v. (k, v) \<in> set [(''0'', position 10 20 100), (''2'', JObj [(''zoom'', JNum 120)]),
                               (''5'', position 1 2 3), (''note'', JObj [(''positionX'', JNum 1)])] \<and>
               truthy (Some v) \<and> typeof (Some v) = TObject \<and>
               ((parseInt k = None \<and> k' = k \<and> v' = v) \<or>
                (parseInt k \<noteq> None \<and>
                 v' = JObj [(''positionX'', JNum (case get_prop v ''positionX'' of
                                                   Some (JNum x) \<Rightarrow> x | _ \<Rightarrow> 50)),
                            (''positionY'', JNum (case get_prop v ''positionY'' of
                                                   Some (JNum y) \<Rightarrow> y | _ \<Rightarrow> 50)),
                            (''zoom'', JNum (case get_prop v ''zoom'' of
                                              Some (JNum z) \<Rightarrow> z | _ \<Rightarrow> 100))]))))"
proof -
  let ?cs = "[JObj [(''path'', JStr ''/a.jpg''), (''id'', JStr ''aaaaaaaa'')],
             JObj [(''path'', JStr ''/b.jpg''), (''id'', JStr ''bbbbbbbb'')]]"
  let ?ps = "[(''0'', position 10 20 100), (''2'', JObj [(''zoom'', JNum 120)]),
              (''5'', position 1 2 3), (''note'', JObj [(''positionX'', JNum 1)])]"
  let ?out = "[(''aaaaaaaa'', position 10 20 100), (''default.jpg'', position 50 50 120),
               (''note'', JObj [(''positionX'', JNum 1)])]"
  have c0: "migrateCustomMedia letter_ids scenario_storage =
      (?cs, storage_set scenario_storage ''homeBannerCustomMedia'' (JArr ?cs))"
    by (subst migrateCustomMedia_legacy [where p = "''/a.jpg''" and xs = "[JStr ''/b.jpg'']"])
      (simp_all add: scenario_storage_def letter_ids_def enumerate_eq_zip upt_rec)
  have p0: "contents scenario_storage ''homeBannerPositions'' = Some (JObj ?ps)"
    by (simp add: scenario_storage_def)
  have n0: "hasNumericKeys (Some (JObj ?ps))" by code_simp
  have m0: "migratePositions (\<lambda>x. []) ?cs catalog_manifest (own_entries (JObj ?ps)) empty_object =
      Some \<lparr>own = ?out, prototype = None\<rparr>"
    by code_simp
  note r = migrate_2_3_returned [OF c0 p0 n0 m0, of "''default.jpg''", unfolded plain_object.select_convs]
  have ret: "migrateUserSettingsStep (\<lambda>x. []) letter_ids catalog_manifest
                 ''default.jpg'' scenario_storage 2 3 =
      Returned (state_of (migrateUserSettingsStep (\<lambda>x. []) letter_ids catalog_manifest
                            ''default.jpg'' scenario_storage 2 3))"
    unfolding r by simp
  from migrate_2_3_position_values [OF ret n0 [folded p0] p0, unfolded own_entries.simps]
  show ?thesis .
qed

text \<open>
  Idempotence. The steps other than the one from version 2 to 3 leave the contents of
  the store as their first application left them; the step from 2 to 3 does so whenever
  no key of the map it has stored matches \<^verbatim>\<open>^\d+$\<close>.
\<close>

lemma migrate_1_2_idempotent: "contents (migrate_1_2 (migrate_1_2 s)) = contents (migrate_1_2 s)"
  by (auto simp: migrate_1_2_def storage_get_def storage_set_def Let_def typeof_boolean
      split: option.splits)

lemma migrate_3_4_idempotent:
  "contents (migrate_3_4 hbm d (migrate_3_4 hbm d s)) = contents (migrate_3_4 hbm d s)"
  by (simp add: migrate_3_4_def storage_get_def storage_set_def Let_def)

lemma migrateBackground_object:
  assumes "contents s (backgroundKey p) = Some (JObj ps)"
  shows "migrateBackground hbm s p =
     (if \<not> truthy (obj_get ps ''mediaId'') \<and> typeof (obj_get ps ''index'') = TNumber
      then (case js_nth hbm (case obj_get ps ''index'' of Some (JNum r) \<Rightarrow> r | _ \<Rightarrow> 0) of
              Some media \<Rightarrow>
                storage_set s (backgroundKey p) (JObj (obj_set ps ''mediaId'' (JStr (fileName media))))
            | None \<Rightarrow> s)
      else s)"
  unfolding migrateBackground_def Let_def storage_get_def assms by (simp split: option.splits)

lemma migrateBackground_twice:
  "contents (migrateBackground hbm (migrateBackground hbm s p) p) (backgroundKey p) =
   contents (migrateBackground hbm s p) (backgroundKey p)"
proof (cases "migrateBackground hbm s p = s")
  case True
  then show ?thesis by simp
next
  case False
  then obtain ps x media where bg: "contents s (backgroundKey p) = Some (JObj ps)"
    and idx: "obj_get ps ''index'' = Some (JNum x)"
    and media: "js_nth hbm x = Some media"
    and s1: "migrateBackground hbm s p =
        storage_set s (backgroundKey p) (JObj (obj_set ps ''mediaId'' (JStr (fileName media))))"
    by (auto simp: migrateBackground_def Let_def storage_get_def
        split: if_splits option.splits jval.splits elim!: typeof.elims)
  define ps' where "ps' = obj_set ps ''mediaId'' (JStr (fileName media))"
  define s' where "s' = migrateBackground hbm s p"
  have c1: "contents s' (backgroundKey p) = Some (JObj ps')"
    by (simp add: s'_def ps'_def s1 storage_set_def)
  have i1: "obj_get ps' ''index'' = Some (JNum x)"
    by (simp add: ps'_def obj_get_obj_set idx)
  have t1: "obj_set ps' ''mediaId'' (JStr (fileName media)) = ps'"
    by (simp add: ps'_def obj_set_twice)
  have "contents (migrateBackground hbm s' p) (backgroundKey p) = Some (JObj ps')"
    unfolding migrateBackground_object [OF c1] i1
    by (simp add: media t1 c1 storage_set_def)
  then show ?thesis by (simp add: c1 s'_def [symmetric])
qed

lemma migrate_4_5_idempotent:
  "contents (migrate_4_5 hbm (migrate_4_5 hbm s)) = contents (migrate_4_5 hbm s)"
proof
  fix k
  let ?s1 = "migrate_4_5 hbm s"
  show "contents (migrate_4_5 hbm ?s1) k = contents ?s1 k"
  proof (cases "k \<in> backgroundKey ` set infusionPageKeys")
    case False
    then show ?thesis by (simp add: migrate_4_5_def foldl_migrateBackground_other)
  next
    case True
    then obtain p where p: "p \<in> set infusionPageKeys" and k: "k = backgroundKey p" by auto
    have one: "contents ?s1 k = contents (migrateBackground hbm s p) k"
      unfolding migrate_4_5_def k
      by (rule foldl_migrateBackground_key [OF distinct_infusionPageKeys p])
    have "contents (migrate_4_5 hbm ?s1) k = contents (migrateBackground hbm ?s1 p) k"
      unfolding migrate_4_5_def [of hbm ?s1] k
      by (rule foldl_migrateBackground_key [OF distinct_infusionPageKeys p])
    also have "\<dots> = contents (migrateBackground hbm (migrateBackground hbm s p) p) k"
      unfolding k by (rule migrateBackground_cong) (use one k in simp)
    also have "\<dots> = contents (migrateBackground hbm s p) k"
      unfolding k by (rule migrateBackground_twice)
    finally show ?thesis by (simp add: one)
  qed
qed

lemma other_steps_idempotent:
  assumes "(fromVersion, toVersion) \<in> {(0, 1), (1, 2), (3, 4), (4, 5)}"
    and "s1 = state_of (migrateUserSettingsStep nts gen hbm d s fromVersion toVersion)"
  shows "contents (state_of (migrateUserSettingsStep nts gen' hbm d s1 fromVersion toVersion)) =
         contents s1"
  using assms
  by (auto simp: migrateUserSettingsStep_def migrate_1_2_idempotent migrate_3_4_idempotent
      migrate_4_5_idempotent)

lemma migrateCustomMedia_again:
  assumes "migrateCustomMedia gen s = (cs, s1)"
  shows "migrateCustomMedia gen' s1 = (cs, s1)"
proof (cases "storage_get s ''homeBannerCustomMedia''")
  case None
  with assms show ?thesis by (auto simp: migrateCustomMedia_def)
next
  case (Some v)
  show ?thesis
  proof (cases v)
    case (JArr xs)
    show ?thesis
    proof (cases "xs \<noteq> [] \<and> typeof (Some (hd xs)) = TString")
      case False
      with assms Some JArr show ?thesis by (auto simp: migrateCustomMedia_def Let_def)
    next
      case True
      then obtain x ys where xs: "xs = x # ys" by (cases xs) auto
      from assms Some JArr True have cs: "cs = map (\<lambda>(n, path). JObj [(''path'', path), (''id'', JStr (gen n))]) (enumerate 0 xs)"
        and s1: "s1 = storage_set s ''homeBannerCustomMedia'' (JArr cs)"
        by (auto simp: migrateCustomMedia_def Let_def)
      have "storage_get s1 ''homeBannerCustomMedia'' = Some (JArr cs)"
        by (simp add: s1 storage_get_def storage_set_def)
      moreover have "cs \<noteq> []" "typeof (Some (hd cs)) = TObject"
        by (simp_all add: cs xs)
      ultimately show ?thesis by (simp add: migrateCustomMedia_def Let_def)
    qed
  qed (use assms Some in \<open>auto simp: migrateCustomMedia_def\<close>)
qed

lemma storage_set_neq: "storage_set s k v \<noteq> s"
proof
  assume "storage_set s k v = s"
  then have "writes (storage_set s k v) = writes s" by simp
  then show False by (simp add: storage_set_def)
qed

lemma migrateCustomMedia_same_key:
  assumes "migrateCustomMedia gen s = (cs, s)"
    and "contents s' ''homeBannerCustomMedia'' = contents s ''homeBannerCustomMedia''"
  shows "migrateCustomMedia gen s' = (cs, s')"
  using assms
  by (auto simp: migrateCustomMedia_def storage_get_def Let_def storage_set_neq
      split: option.splits jval.splits if_splits)

lemma migrate_2_3_idempotent_without_numeric_keys:
  assumes "migrate_2_3 nts gen hbm s = Returned s1"
    and "\<not> hasNumericKeys (contents s1 ''homeBannerPositions'')"
  shows "migrate_2_3 nts gen' hbm s1 = Returned s1"
proof -
  obtain cs s0 where c: "migrateCustomMedia gen s = (cs, s0)"
    by (cases "migrateCustomMedia gen s")
  have k: "contents s1 ''homeBannerCustomMedia'' = contents s0 ''homeBannerCustomMedia''"
    using assms(1)
    by (auto simp: migrate_2_3_def c Let_def storage_set_def split: if_splits option.splits)
  have "migrateCustomMedia gen' s1 = (cs, s1)"
    by (rule migrateCustomMedia_same_key [OF migrateCustomMedia_again [OF c] k])
  then show ?thesis
    using assms(2) by (simp add: migrate_2_3_def storage_get_def)
qed


text \<open>
  Claim C1 at a concrete store: two legacy paths, positions under the indices 0 and 2,
  one builtin entry, and \<^verbatim>\<open>12345678\<close> as the first generated id. The first application
  stores the position of the first custom entry under its id; that id matches
  \<^verbatim>\<open>^\d+$\<close>, so the second application reads it as an index that addresses no entry
  and stores a map without it.
\<close>

theorem migrate_2_3_twice_drops_position:
  "contents (state_of (migrateUserSettingsStep (\<lambda>x. []) digit_ids catalog_manifest ''default.jpg''
                         legacy_storage 2 3)) ''homeBannerPositions'' =
     Some (JObj [(''12345678'', position 10 20 100), (''default.jpg'', position 50 50 100)]) \<and>
   contents (state_of (migrateUserSettingsStep (\<lambda>x. []) digit_ids catalog_manifest ''default.jpg''
                (state_of (migrateUserSettingsStep (\<lambda>x. []) digit_ids catalog_manifest ''default.jpg''
                             legacy_storage 2 3)) 2 3)) ''homeBannerPositions'' =
     Some (JObj [(''default.jpg'', position 50 50 100)])"
proof -
  let ?cs = "[JObj [(''path'', JStr ''/a.jpg''), (''id'', JStr ''12345678'')],
             JObj [(''path'', JStr ''/b.jpg''), (''id'', JStr ''9f8e7d6c'')]]"
  let ?ps0 = "[(''0'', position 10 20 100), (''2'', position 50 50 100)]"
  let ?ps1 = "[(''12345678'', position 10 20 100), (''default.jpg'', position 50 50 100)]"
  let ?ps2 = "[(''default.jpg'', position 50 50 100)]"
  let ?s1 = "storage_set (storage_set legacy_storage ''homeBannerCustomMedia'' (JArr ?cs))
               ''homeBannerPositions'' (JObj ?ps1)"
  have c0: "migrateCustomMedia digit_ids legacy_storage =
      (?cs, storage_set legacy_storage ''homeBannerCustomMedia'' (JArr ?cs))"
    by (subst migrateCustomMedia_legacy [where p = "''/a.jpg''" and xs = "[JStr ''/b.jpg'']"])
      (simp_all add: legacy_storage_def digit_ids_def enumerate_eq_zip upt_rec)
  have p0: "contents legacy_storage ''homeBannerPositions'' = Some (JObj ?ps0)"
    by (simp add: legacy_storage_def)
  have n0: "hasNumericKeys (Some (JObj ?ps0))" by code_simp
  have m0: "migratePositions (\<lambda>x. []) ?cs catalog_manifest (own_entries (JObj ?ps0)) empty_object =
      Some \<lparr>own = ?ps1, prototype = None\<rparr>"
    by code_simp
  have r1: "migrateUserSettingsStep (\<lambda>x. []) digit_ids catalog_manifest ''default.jpg''
              legacy_storage 2 3 = Returned ?s1"
    by (rule migrate_2_3_returned [OF c0 p0 n0 m0, unfolded plain_object.select_convs])
  have c1: "migrateCustomMedia digit_ids ?s1 = (?cs, ?s1)"
    by (rule migrateCustomMedia_objects) (simp add: storage_set_def)
  have p1: "contents ?s1 ''homeBannerPositions'' = Some (JObj ?ps1)"
    by (simp add: storage_set_def)
  have n1: "hasNumericKeys (Some (JObj ?ps1))" by code_simp
  have m1: "migratePositions (\<lambda>x. []) ?cs catalog_manifest (own_entries (JObj ?ps1)) empty_object =
      Some \<lparr>own = ?ps2, prototype = None\<rparr>"
    by code_simp
  have r2: "migrateUserSettingsStep (\<lambda>x. []) digit_ids catalog_manifest ''default.jpg'' ?s1 2 3 =
      Returned (storage_set ?s1 ''homeBannerPositions'' (JObj ?ps2))"
    by (rule migrate_2_3_returned [OF c1 p1 n1 m1, unfolded plain_object.select_convs])
  show ?thesis
    unfolding r1 state_of.simps r2 by (simp add: storage_set_def)
qed

end
